theory Spec2Isabelle
  imports Complex_Main
begin

section \<open>The memory ramp of \<open>oom_demo.py\<close>\<close>

text \<open>
  The development embeds \<open>ramp_memory_and_fail\<close> and the \<open>try\<close> statement of \<open>main\<close> from
  \<open>src/python/python-oom-demo/oom_demo.py\<close>.  Python integers are \<open>int\<close>.  A float is
  modelled by the real number it denotes (NaN, the infinities and the rounding of floats
  are outside the model).  What the process cannot decide by itself is a parameter, the
  environment: whether a telemetry record reaches the collector, and whether the
  allocator can hand out the memory asked for.
\<close>

subsection \<open>Exceptions, telemetry calls and the state of the ramp\<close>

datatype py_exc =
    MemoryError string
  | ValueError string
  | OverflowError string
  | RuntimeError string
  | KeyboardInterrupt

text \<open>\<open>str(exc)\<close>, \<open>type(exc).__name__\<close> and \<open>isinstance(exc, Exception)\<close>.\<close>

fun str_exc :: "py_exc \<Rightarrow> string" where
  "str_exc (MemoryError m) = m"
| "str_exc (ValueError m) = m"
| "str_exc (OverflowError m) = m"
| "str_exc (RuntimeError m) = m"
| "str_exc KeyboardInterrupt = []"



fun is_MemoryError :: "py_exc \<Rightarrow> bool" where
  "is_MemoryError (MemoryError m) = True"
| "is_MemoryError e = False"

datatype log_level = LOG_INFO | LOG_ERROR

datatype status_code = StatusCode_UNSET | StatusCode_OK | StatusCode_ERROR

datatype attr_value = AttrInt int | AttrFloat real

text \<open>
  Every effect of the function, in program order: the calls on the tracer, the span and
  the logger, the allocation of a chunk and the sleep.  A log record carries its level,
  its message, the \<open>extra\<close> dictionary and the exception attached by
  \<open>logger.exception\<close>.
\<close>

datatype event =
    SpanStart string
  | SetAttribute string attr_value
  | LogRecord log_level string "(string \<times> int) list" "py_exc option"
  | Allocate int
  | Sleep real
  | RecordException py_exc
  | SetStatus status_code string
  | SpanEnd

record ramp_state =
  allocations :: "int list"
  i :: int
  trace :: "event list"
  exported :: "event list"

text \<open>
  The environment of a run.  \<open>sink env e\<close> tells whether the record \<open>e\<close>, once submitted,
  reaches the collector; a submission always returns to the caller, and only the field
  \<open>exported\<close> depends on the sink.  \<open>can_allocate env held n\<close> tells whether the allocator
  finds \<open>n\<close> more bytes for a process that holds the blocks \<open>held\<close>.
\<close>

type_synonym sink = "event \<Rightarrow> bool"

record environment =
  sink :: sink
  can_allocate :: "int list \<Rightarrow> int \<Rightarrow> bool"

definition emit :: "sink \<Rightarrow> event \<Rightarrow> ramp_state \<Rightarrow> ramp_state" where
  "emit snk e s =
     s\<lparr>trace := trace s @ [e],
       exported := (if snk e then exported s @ [e] else exported s)\<rparr>"

definition effect :: "event \<Rightarrow> ramp_state \<Rightarrow> ramp_state" where
  "effect e s = s\<lparr>trace := trace s @ [e]\<rparr>"

subsection \<open>Library calls the function makes\<close>

text \<open>\<open>sys.maxsize\<close> of a 64-bit interpreter.\<close>

definition sys_maxsize :: int where
  "sys_maxsize = 2 ^ 63 - 1"

text \<open>
  \<open>bytearray(n)\<close>: a count that is no index raises \<open>OverflowError\<close>, a negative count
  \<open>ValueError\<close>, and a count for which the allocator finds no memory raises
  \<open>MemoryError\<close> with an empty message.
\<close>

definition bytearray :: "environment \<Rightarrow> int list \<Rightarrow> int \<Rightarrow> py_exc + int" where
  "bytearray env held n =
     (if n < - sys_maxsize - 1 \<or> sys_maxsize < n
        then Inl (OverflowError ''cannot fit 'int' into an index-sized integer'')
      else if n < 0 then Inl (ValueError ''negative count'')
      else if \<not> can_allocate env held n then Inl (MemoryError [])
      else Inr n)"

text \<open>
  \<open>time.sleep(secs)\<close>: the delay is turned into a number of nanoseconds, rounded away
  from zero; a number that does not fit 64 bits raises \<open>OverflowError\<close>, a negative one
  \<open>ValueError\<close>.
\<close>

definition sleep_ns :: "real \<Rightarrow> int" where
  "sleep_ns secs = (if 0 \<le> secs then \<lceil>secs * 10 ^ 9\<rceil> else \<lfloor>secs * 10 ^ 9\<rfloor>)"

definition time_sleep :: "real \<Rightarrow> py_exc + unit" where
  "time_sleep secs =
     (if sleep_ns secs < - (2 ^ 63) \<or> 2 ^ 63 - 1 < sleep_ns secs
        then Inl (OverflowError ''timestamp out of range for platform time_t'')
      else if sleep_ns secs < 0
        then Inl (ValueError ''sleep length must be non-negative'')
      else Inr ())"

text \<open>Truth value of \<open>max_bytes\<close>, an integer or \<open>None\<close>.\<close>

fun truthy :: "int option \<Rightarrow> bool" where
  "truthy None = False"
| "truthy (Some n) = (n \<noteq> 0)"

text \<open>
  The text of \<open>f"{max_bytes / (1024 * 1024):.1f}"\<close>: the quotient with one decimal
  (exact when the divisor divides, as it does for every cap given in MB).
\<close>

fun str_nat :: "nat \<Rightarrow> string" where
  "str_nat n =
     (if n < 10 then [''0123456789'' ! n]
      else str_nat (n div 10) @ [''0123456789'' ! (n mod 10)])"

definition fmt_1f :: "int \<Rightarrow> int \<Rightarrow> string" where
  "fmt_1f a b =
     (let t = (20 * \<bar>a\<bar> + \<bar>b\<bar>) div (2 * \<bar>b\<bar>);
          neg = ((a < 0) \<noteq> (b < 0)) \<and> t \<noteq> 0
      in (if neg then ''-'' else '''') @ str_nat (nat (t div 10)) @ ''.'' @ str_nat (nat (t mod 10)))"

definition cap_message :: "int \<Rightarrow> string" where
  "cap_message max_bytes = ''Reached demo cap of '' @ fmt_1f max_bytes (1024 * 1024) @ '' MB''"

subsection \<open>The loop of \<open>ramp_memory_and_fail\<close>\<close>

text \<open>The local variables the loop reads and never writes.\<close>

record ramp_locals =
  chunk_mb :: int
  chunk_bytes :: int
  max_bytes :: "int option"
  sleep_seconds :: real

text \<open>The test \<open>max_bytes and (i * chunk_bytes) >= max_bytes\<close>.\<close>

definition cap_reached :: "int option \<Rightarrow> int \<Rightarrow> bool" where
  "cap_reached mb n = (truthy mb \<and> (case mb of None \<Rightarrow> False | Some m \<Rightarrow> n \<ge> m))"

text \<open>
  One pass through the body of \<open>while True\<close>: \<open>Inr\<close> is the state at the end of the
  pass, \<open>Inl\<close> the exception that leaves the loop, with the state at the raise.
\<close>

definition loop_body :: "environment \<Rightarrow> ramp_locals \<Rightarrow> ramp_state \<Rightarrow> (py_exc \<times> ramp_state) + ramp_state" where
  "loop_body env c s =
     (case bytearray env (allocations s) (chunk_bytes c) of
        Inl e \<Rightarrow> Inl (e, s)
      | Inr b \<Rightarrow>
          (let s1 = effect (Allocate b) (s\<lparr>allocations := allocations s @ [b]\<rparr>);
               s2 = s1\<lparr>i := i s1 + 1\<rparr>;
               s3 = emit (sink env) (LogRecord LOG_INFO ''Allocated chunk''
                      [(''chunk_index'', i s2), (''allocated_mb'', i s2 * chunk_mb c)] None) s2
           in if cap_reached (max_bytes c) (i s3 * chunk_bytes c)
              then Inl (MemoryError (cap_message (the (max_bytes c))), s3)
              else (case time_sleep (sleep_seconds c) of
                      Inl e \<Rightarrow> Inl (e, s3)
                    | Inr u \<Rightarrow> Inr (effect (Sleep (sleep_seconds c)) s3))))"

text \<open>
  \<open>while True\<close> has no \<open>break\<close>: the loop ends by an exception or not at all
  (\<open>None\<close>).
\<close>

partial_function (option) ramp_loop ::
  "environment \<Rightarrow> ramp_locals \<Rightarrow> ramp_state \<Rightarrow> (py_exc \<times> ramp_state) option" where
  "ramp_loop env c s =
     (case loop_body env c s of
        Inl r \<Rightarrow> Some r
      | Inr s' \<Rightarrow> ramp_loop env c s')"

text \<open>The first \<open>k\<close> passes, for the states the loop goes through.\<close>

fun run_iters :: "nat \<Rightarrow> environment \<Rightarrow> ramp_locals \<Rightarrow> ramp_state \<Rightarrow> (py_exc \<times> ramp_state) + ramp_state" where
  "run_iters 0 env c s = Inr s"
| "run_iters (Suc k) env c s =
     (case loop_body env c s of
        Inl r \<Rightarrow> Inl r
      | Inr s' \<Rightarrow> run_iters k env c s')"

subsection \<open>\<open>ramp_memory_and_fail\<close>\<close>

text \<open>
  The handler \<open>except MemoryError as exc\<close>, up to its \<open>raise\<close>.  It handles every
  \<open>MemoryError\<close>: the one of the cap and the one of the allocator.
\<close>

definition on_memory_error :: "environment \<Rightarrow> py_exc \<Rightarrow> ramp_state \<Rightarrow> ramp_state" where
  "on_memory_error env exc s =
     (let s1 = emit (sink env) (LogRecord LOG_ERROR ''MemoryError triggered; demo complete'' [] (Some exc)) s;
          s2 = emit (sink env) (RecordException exc) s1;
          s3 = emit (sink env) (SetStatus StatusCode_ERROR (str_exc exc)) s2
      in s3)"

definition init_state :: ramp_state where
  "init_state = \<lparr>allocations = [], i = 0, trace = [], exported = []\<rparr>"

definition ramp_locals_of :: "int \<Rightarrow> int \<Rightarrow> real \<Rightarrow> ramp_locals" where
  "ramp_locals_of max_mb_env cm sl =
     \<lparr>chunk_mb = cm, chunk_bytes = cm * 1024 * 1024,
      max_bytes = (if max_mb_env \<noteq> 0 then Some (max_mb_env * 1024 * 1024) else None),
      sleep_seconds = sl\<rparr>"

text \<open>The statements before the \<open>try\<close>: the span is started and the ramp announced.\<close>

definition ramp_prologue :: "environment \<Rightarrow> ramp_locals \<Rightarrow> ramp_state" where
  "ramp_prologue env c =
     (let s0 = emit (sink env) (SpanStart ''oom-demo'') init_state;
          s1 = emit (sink env) (SetAttribute ''demo.chunk_mb'' (AttrInt (chunk_mb c))) s0;
          s2 = emit (sink env) (SetAttribute ''demo.sleep_seconds'' (AttrFloat (sleep_seconds c))) s1;
          s3 = (if truthy (max_bytes c)
                then emit (sink env) (SetAttribute ''demo.max_bytes'' (AttrInt (the (max_bytes c)))) s2
                else s2)
      in emit (sink env) (LogRecord LOG_INFO ''Starting memory ramp'' [(''chunk_mb'', chunk_mb c)] None) s3)"

text \<open>
  The function with its local \<open>max_mb_env\<close> as a parameter.  The result is the
  exception that leaves the function and the state at that point; \<open>None\<close> when the
  loop runs forever.  The trace holds the calls the function itself makes; leaving the
  \<open>with\<close> block ends the span, and what the tracing library does to the span at that
  point is \<open>span_exit_calls\<close> below.
\<close>

definition ramp_with_cap :: "int \<Rightarrow> environment \<Rightarrow> int \<Rightarrow> real \<Rightarrow> (py_exc \<times> ramp_state) option" where
  "ramp_with_cap max_mb_env env cm sl =
     (let c = ramp_locals_of max_mb_env cm sl
      in case ramp_loop env c (ramp_prologue env c) of
           None \<Rightarrow> None
         | Some (exc, s) \<Rightarrow>
             Some (exc, emit (sink env) SpanEnd
                          (if is_MemoryError exc then on_memory_error env exc s else s)))"

text \<open>\<open>max_mb_env = 400\<close> in the source.\<close>

definition ramp_memory_and_fail :: "environment \<Rightarrow> int \<Rightarrow> real \<Rightarrow> (py_exc \<times> ramp_state) option" where
  "ramp_memory_and_fail env cm sl = ramp_with_cap 400 env cm sl"

subsection \<open>The \<open>try\<close> statement of \<open>main\<close>\<close>

datatype shutdown_target =
  Span_processor | Log_processor | Metric_reader | Logger_provider | Meter_provider

definition shutdown_order :: "shutdown_target list" where
  "shutdown_order = [Span_processor, Log_processor, Metric_reader, Logger_provider, Meter_provider]"

text \<open>
  The statements of the \<open>finally\<close> block, one after the other.  \<open>sh t\<close> is the exception
  that \<open>t.shutdown()\<close> raises, if any.  The result is the list of calls made and the
  exception that left the block.
\<close>

fun run_shutdowns :: "(shutdown_target \<Rightarrow> py_exc option) \<Rightarrow> shutdown_target list
    \<Rightarrow> shutdown_target list \<times> py_exc option" where
  "run_shutdowns sh [] = ([], None)"
| "run_shutdowns sh (t # ts) =
     (case sh t of
        Some e \<Rightarrow> ([t], Some e)
      | None \<Rightarrow> (case run_shutdowns sh ts of (cs, r) \<Rightarrow> (t # cs, r)))"

datatype main_outcome = Returned | SysExit int | Propagated py_exc

text \<open>
  \<open>r\<close> is how the call of \<open>ramp_memory_and_fail\<close> ended (\<open>Inr ()\<close>: it returned).  An
  exception raised in \<open>finally\<close> replaces the one that was on its way.
\<close>

definition main_try :: "py_exc + unit \<Rightarrow> (shutdown_target \<Rightarrow> py_exc option)
    \<Rightarrow> shutdown_target list \<times> main_outcome" where
  "main_try r sh =
     (let pending = (case r of
                       Inr u \<Rightarrow> Returned
                     | Inl e \<Rightarrow> if is_MemoryError e then SysExit 1 else Propagated e)
      in case run_shutdowns sh shutdown_order of
           (calls, Some e) \<Rightarrow> (calls, Propagated e)
         | (calls, None) \<Rightarrow> (calls, pending))"

text \<open>
  The status the interpreter ends with: \<open>sys.exit(n)\<close> gives \<open>n\<close>, an uncaught exception
  gives 1, an uncaught \<open>KeyboardInterrupt\<close> ends the process by the signal.
\<close>

datatype proc_status = ExitCode int | KilledBySIGINT

fun exit_status :: "main_outcome \<Rightarrow> proc_status" where
  "exit_status Returned = ExitCode 0"
| "exit_status (SysExit n) = ExitCode n"
| "exit_status (Propagated KeyboardInterrupt) = KilledBySIGINT"
| "exit_status (Propagated e) = ExitCode 1"

text \<open>\<open>main\<close> from the parsed configuration on; \<open>None\<close> when the ramp never ends.\<close>

definition main :: "environment \<Rightarrow> (shutdown_target \<Rightarrow> py_exc option) \<Rightarrow> int \<Rightarrow> real
    \<Rightarrow> (ramp_state \<times> shutdown_target list \<times> main_outcome) option" where
  "main env sh cm sl =
     (case ramp_memory_and_fail env cm sl of
        None \<Rightarrow> None
      | Some (exc, s) \<Rightarrow> Some (s, main_try (Inl exc) sh))"

subsection \<open>What is observed of a run\<close>

text \<open>The state reached after the allocation, the increment and the log of one pass.\<close>

definition chunk_logged :: "environment \<Rightarrow> ramp_locals \<Rightarrow> ramp_state \<Rightarrow> ramp_state" where
  "chunk_logged env c s =
     emit (sink env) (LogRecord LOG_INFO ''Allocated chunk''
                 [(''chunk_index'', i s + 1), (''allocated_mb'', (i s + 1) * chunk_mb c)] None)
       (s\<lparr>allocations := allocations s @ [chunk_bytes c], i := i s + 1,
          trace := trace s @ [Allocate (chunk_bytes c)]\<rparr>)"

text \<open>The state a run is in after \<open>k\<close> passes, whether it has left the loop or not.\<close>

fun state_of :: "(py_exc \<times> ramp_state) + ramp_state \<Rightarrow> ramp_state" where
  "state_of (Inl (e, s)) = s"
| "state_of (Inr s) = s"

definition state_after :: "nat \<Rightarrow> int \<Rightarrow> environment \<Rightarrow> int \<Rightarrow> real \<Rightarrow> ramp_state" where
  "state_after k max_mb_env env cm sl =
     (let c = ramp_locals_of max_mb_env cm sl
      in state_of (run_iters k env c (ramp_prologue env c)))"

definition bytes_allocated :: "ramp_state \<Rightarrow> int" where
  "bytes_allocated s = sum_list (allocations s)"

definition chunks_allocated :: "ramp_state \<Rightarrow> nat" where
  "chunks_allocated s = length (allocations s)"

fun is_chunk_log :: "event \<Rightarrow> bool" where
  "is_chunk_log (LogRecord l m x e) = (m = ''Allocated chunk'')"
| "is_chunk_log ev = False"

definition chunk_logs :: "ramp_state \<Rightarrow> nat" where
  "chunk_logs s = length (filter is_chunk_log (trace s))"

fun is_log :: "event \<Rightarrow> bool" where
  "is_log (LogRecord l m x e) = True"
| "is_log ev = False"

fun is_span_start :: "event \<Rightarrow> bool" where
  "is_span_start (SpanStart n) = True"
| "is_span_start ev = False"

text \<open>The calls of \<open>span.set_status\<close> the function has made so far, in order.\<close>

fun status_calls :: "event list \<Rightarrow> (status_code \<times> string) list" where
  "status_calls [] = []"
| "status_calls (SetStatus code m # es) = (code, m) # status_calls es"
| "status_calls (ev # es) = status_calls es"







text \<open>The effects of the first \<open>k\<close> complete passes of a ramp that is still running.\<close>

definition pass_events :: "ramp_locals \<Rightarrow> int \<Rightarrow> event list" where
  "pass_events c j =
     [Allocate (chunk_bytes c),
      LogRecord LOG_INFO ''Allocated chunk'' [(''chunk_index'', j), (''allocated_mb'', j * chunk_mb c)] None]"

fun ramp_events :: "ramp_locals \<Rightarrow> nat \<Rightarrow> event list" where
  "ramp_events c 0 = []"
| "ramp_events c (Suc k) = ramp_events c k @ pass_events c (int (Suc k)) @ [Sleep (sleep_seconds c)]"

text \<open>The effects of the handler of \<open>MemoryError\<close> and of leaving the \<open>with\<close> block.\<close>

definition failure_events :: "py_exc \<Rightarrow> event list" where
  "failure_events exc =
     [LogRecord LOG_ERROR ''MemoryError triggered; demo complete'' [] (Some exc),
      RecordException exc,
      SetStatus StatusCode_ERROR (str_exc exc),
      SpanEnd]"

text \<open>What of a run does not depend on the sink: everything but \<open>exported\<close>.\<close>

definition ramp_view :: "ramp_state \<Rightarrow> int list \<times> int \<times> event list" where
  "ramp_view s = (allocations s, i s, trace s)"

fun outcome_view :: "(py_exc \<times> ramp_state) + ramp_state
    \<Rightarrow> (py_exc \<times> int list \<times> int \<times> event list) + (int list \<times> int \<times> event list)" where
  "outcome_view (Inl (e, s)) = Inl (e, ramp_view s)"
| "outcome_view (Inr s) = Inr (ramp_view s)"

fun raised_view :: "py_exc \<times> ramp_state \<Rightarrow> py_exc \<times> int list \<times> int \<times> event list" where
  "raised_view (e, s) = (e, ramp_view s)"

subsection \<open>Environments and shutdown behaviours used as examples\<close>

fun always :: "'a \<Rightarrow> bool" where
  "always x = True"

fun never :: "'a \<Rightarrow> bool" where
  "never x = False"

fun enough_memory :: "int list \<Rightarrow> int \<Rightarrow> bool" where
  "enough_memory held n = True"


definition env_reachable :: environment where
  "env_reachable = \<lparr>sink = always, can_allocate = enough_memory\<rparr>"

definition env_sink_failing :: environment where
  "env_sink_failing = \<lparr>sink = never, can_allocate = enough_memory\<rparr>"


definition all_shutdowns_return :: "shutdown_target \<Rightarrow> py_exc option" where
  "all_shutdowns_return t = None"

definition span_processor_fails :: "shutdown_target \<Rightarrow> py_exc option" where
  "span_processor_fails t =
     (if t = Span_processor then Some (RuntimeError ''export failed'') else None)"

definition log_processor_fails :: "shutdown_target \<Rightarrow> py_exc option" where
  "log_processor_fails t =
     (if t = Log_processor then Some (RuntimeError ''export failed'') else None)"

definition metric_reader_interrupted :: "shutdown_target \<Rightarrow> py_exc option" where
  "metric_reader_interrupted t =
     (if t = Metric_reader then Some KeyboardInterrupt else None)"

subsection \<open>Quantities the properties speak of\<close>

text \<open>The number \<open>ceil(cap_bytes / chunk_size_bytes)\<close>.\<close>

definition chunks_needed :: "int \<Rightarrow> int \<Rightarrow> nat" where
  "chunks_needed cap_bytes chunk_size_bytes =
     nat \<lceil>real_of_int cap_bytes / real_of_int chunk_size_bytes\<rceil>"

text \<open>
  The allocator serves the first \<open>n\<close> chunks of \<open>b\<close> bytes, and \<open>time.sleep\<close> takes the
  delay.
\<close>

definition chunks_obtainable :: "environment \<Rightarrow> int \<Rightarrow> nat \<Rightarrow> bool" where
  "chunks_obtainable env b n \<longleftrightarrow> (\<forall>k < n. bytearray env (replicate k b) b = Inr b)"

definition sleep_accepted :: "real \<Rightarrow> bool" where
  "sleep_accepted secs \<longleftrightarrow> time_sleep secs = Inr ()"

text \<open>
  What holds of the state between two passes: the bytes held are the chunks times the
  chunk size, \<open>i\<close> counts the chunks, each chunk has its log record, and no status was
  set on the span.
\<close>

definition ramp_inv :: "ramp_locals \<Rightarrow> ramp_state \<Rightarrow> bool" where
  "ramp_inv c s \<longleftrightarrow>
     bytes_allocated s = int (chunks_allocated s) * chunk_bytes c
     \<and> i s = int (chunks_allocated s)
     \<and> chunk_logs s = chunks_allocated s
     \<and> status_calls (trace s) = []"

section \<open>Properties\<close>

subsection \<open>The loop and its passes\<close>

lemma run_iters_Inl_ramp_loop:
  "run_iters k env c s = Inl r \<Longrightarrow> ramp_loop env c s = Some r"
proof (induction k arbitrary: s)
  case 0
  then show ?case by simp
next
  case (Suc k)
  show ?case
  proof (cases "loop_body env c s")
    case (Inl a)
    with Suc.prems show ?thesis by (subst ramp_loop.simps) simp
  next
    case (Inr s')
    with Suc.prems have "run_iters k env c s' = Inl r" by simp
    then have "ramp_loop env c s' = Some r" by (rule Suc.IH)
    with Inr show ?thesis by (subst ramp_loop.simps) simp
  qed
qed

lemma ramp_loop_Some_run_iters:
  assumes a: "ramp_loop env c s = Some r"
  shows "\<exists>k. run_iters k env c s = Inl r"
proof (rule ramp_loop.raw_induct
    [where P = "\<lambda>env c s r. \<exists>k. run_iters k env c s = Inl r", OF _ a])
  fix f :: "environment \<Rightarrow> ramp_locals \<Rightarrow> ramp_state \<Rightarrow> (py_exc \<times> ramp_state) option"
  fix env c s r
  assume IH: "\<And>env c s r. f env c s = Some r \<Longrightarrow> \<exists>k. run_iters k env c s = Inl r"
  assume step: "(case loop_body env c s of Inl r \<Rightarrow> Some r | Inr s' \<Rightarrow> f env c s') = Some r"
  show "\<exists>k. run_iters k env c s = Inl r"
  proof (cases "loop_body env c s")
    case (Inl a)
    with step have "run_iters (Suc 0) env c s = Inl r" by simp
    then show ?thesis by blast
  next
    case (Inr s')
    with step have "f env c s' = Some r" by simp
    then obtain k where "run_iters k env c s' = Inl r" using IH by blast
    with Inr have "run_iters (Suc k) env c s = Inl r" by simp
    then show ?thesis by blast
  qed
qed

lemma run_iters_Suc_end:
  "run_iters (Suc k) env c s =
     (case run_iters k env c s of Inl r \<Rightarrow> Inl r | Inr s' \<Rightarrow> loop_body env c s')"
proof (induction k arbitrary: s)
  case 0
  show ?case by (simp split: sum.splits)
next
  case (Suc k)
  show ?case
  proof (cases "loop_body env c s")
    case (Inl r)
    then show ?thesis by simp
  next
    case (Inr s')
    have a: "run_iters (Suc (Suc k)) env c s = run_iters (Suc k) env c s'"
      using Inr by simp
    have b: "run_iters (Suc k) env c s = run_iters k env c s'"
      using Inr by simp
    show ?thesis unfolding a b by (rule Suc.IH)
  qed
qed

lemma run_iters_Inl_stable:
  "run_iters k env c s = Inl r \<Longrightarrow> run_iters (k + j) env c s = Inl r"
proof (induction j)
  case 0 then show ?case by simp
next
  case (Suc j)
  then have "run_iters (k + j) env c s = Inl r" by simp
  then show ?case unfolding add_Suc_right run_iters_Suc_end by simp
qed

lemma ramp_loop_None:
  assumes "\<And>k. \<exists>s'. run_iters k env c s = Inr s'"
  shows "ramp_loop env c s = None"
proof (cases "ramp_loop env c s")
  case None then show ?thesis .
next
  case (Some r)
  then obtain k where "run_iters k env c s = Inl r" using ramp_loop_Some_run_iters by blast
  with assms[of k] show ?thesis by simp
qed

lemma bytearray_Inr:
  "bytearray env held n = Inr b \<Longrightarrow> b = n \<and> 0 \<le> n"
  by (simp add: bytearray_def split: if_splits)

lemma loop_body_cases:
  "loop_body env c s =
     (case bytearray env (allocations s) (chunk_bytes c) of
        Inl e \<Rightarrow> Inl (e, s)
      | Inr b \<Rightarrow>
          if cap_reached (max_bytes c) ((i s + 1) * chunk_bytes c)
          then Inl (MemoryError (cap_message (the (max_bytes c))), chunk_logged env c s)
          else (case time_sleep (sleep_seconds c) of
                  Inl e \<Rightarrow> Inl (e, chunk_logged env c s)
                | Inr u \<Rightarrow> Inr (effect (Sleep (sleep_seconds c)) (chunk_logged env c s))))"
proof (cases "bytearray env (allocations s) (chunk_bytes c)")
  case (Inl e)
  then show ?thesis by (simp add: loop_body_def)
next
  case (Inr b)
  then have b: "b = chunk_bytes c" using bytearray_Inr by blast
  show ?thesis
    unfolding loop_body_def Inr b
    by (simp add: chunk_logged_def Let_def effect_def emit_def split: sum.splits)
qed

lemma chunk_logged_fields:
  "allocations (chunk_logged env c s) = allocations s @ [chunk_bytes c]"
  "i (chunk_logged env c s) = i s + 1"
  "trace (chunk_logged env c s) = trace s @ pass_events c (i s + 1)"
  by (simp_all add: chunk_logged_def emit_def pass_events_def)

lemma effect_fields:
  "allocations (effect e s) = allocations s"
  "i (effect e s) = i s"
  "trace (effect e s) = trace s @ [e]"
  by (simp_all add: effect_def)

lemma emit_fields:
  "allocations (emit (sink env) e s) = allocations s"
  "i (emit (sink env) e s) = i s"
  "trace (emit (sink env) e s) = trace s @ [e]"
  by (simp_all add: emit_def)

lemma prologue_fields:
  "allocations (ramp_prologue env c) = []"
  "i (ramp_prologue env c) = 0"
  by (simp_all add: ramp_prologue_def Let_def emit_fields init_state_def)

lemma prologue_trace:
  "trace (ramp_prologue env c) =
     [SpanStart ''oom-demo'',
      SetAttribute ''demo.chunk_mb'' (AttrInt (chunk_mb c)),
      SetAttribute ''demo.sleep_seconds'' (AttrFloat (sleep_seconds c))]
     @ (if truthy (max_bytes c) then [SetAttribute ''demo.max_bytes'' (AttrInt (the (max_bytes c)))] else [])
     @ [LogRecord LOG_INFO ''Starting memory ramp'' [(''chunk_mb'', chunk_mb c)] None]"
  by (simp add: ramp_prologue_def Let_def emit_fields init_state_def)

text \<open>A ramp that goes on: k complete passes.\<close>

lemma chunks_obtainableD:
  "chunks_obtainable env b n \<Longrightarrow> k < n \<Longrightarrow> bytearray env (replicate k b) b = Inr b"
  by (simp add: chunks_obtainable_def)

lemma chunks_obtainable_less:
  "chunks_obtainable env b n \<Longrightarrow> m \<le> n \<Longrightarrow> chunks_obtainable env b m"
  by (simp add: chunks_obtainable_def)

lemma run_iters_running:
  assumes mem: "chunks_obtainable env (chunk_bytes c) k"
    and sl: "sleep_accepted (sleep_seconds c)"
    and below: "\<And>j. 1 \<le> j \<Longrightarrow> j \<le> int k \<Longrightarrow> \<not> cap_reached (max_bytes c) (j * chunk_bytes c)"
  shows "\<exists>s. run_iters k env c (ramp_prologue env c) = Inr s
           \<and> allocations s = replicate k (chunk_bytes c) \<and> i s = int k
           \<and> trace s = trace (ramp_prologue env c) @ ramp_events c k"
  using mem below
proof (induction k)
  case 0
  show ?case by (simp add: prologue_fields)
next
  case (Suc k)
  have "chunks_obtainable env (chunk_bytes c) k"
    using Suc.prems(1) by (rule chunks_obtainable_less) simp
  moreover have "\<And>j. 1 \<le> j \<Longrightarrow> j \<le> int k \<Longrightarrow> \<not> cap_reached (max_bytes c) (j * chunk_bytes c)"
    using Suc.prems(2) by simp
  ultimately obtain s where s: "run_iters k env c (ramp_prologue env c) = Inr s"
    "allocations s = replicate k (chunk_bytes c)" "i s = int k"
    "trace s = trace (ramp_prologue env c) @ ramp_events c k"
    using Suc.IH by blast
  have al: "bytearray env (allocations s) (chunk_bytes c) = Inr (chunk_bytes c)"
    unfolding s(2) using Suc.prems(1) by (rule chunks_obtainableD) simp
  have nc: "\<not> cap_reached (max_bytes c) ((i s + 1) * chunk_bytes c)"
    using Suc.prems(2)[of "int k + 1"] s(3) by simp
  have ts: "time_sleep (sleep_seconds c) = Inr ()"
    using sl by (simp add: sleep_accepted_def)
  have lb: "loop_body env c s = Inr (effect (Sleep (sleep_seconds c)) (chunk_logged env c s))"
    using nc by (simp add: loop_body_cases al ts)
  let ?s' = "effect (Sleep (sleep_seconds c)) (chunk_logged env c s)"
  have "run_iters (Suc k) env c (ramp_prologue env c) = Inr ?s'"
    unfolding run_iters_Suc_end using s(1) lb by simp
  moreover have "allocations ?s' = replicate (Suc k) (chunk_bytes c)"
    using s(2) by (simp add: effect_fields chunk_logged_fields replicate_append_same)
  moreover have "i ?s' = int (Suc k)"
    using s(3) by (simp add: effect_fields chunk_logged_fields)
  moreover have "trace ?s' = trace (ramp_prologue env c) @ ramp_events c (Suc k)"
    using s(3,4) by (simp add: effect_fields chunk_logged_fields add.commute)
  ultimately show ?case by blast
qed

text \<open>The pass on which the cap is reached.\<close>

lemma run_iters_capped:
  assumes mem: "chunks_obtainable env (chunk_bytes c) (Suc k)"
    and sl: "sleep_accepted (sleep_seconds c) \<or> k = 0"
    and below: "\<And>j. 1 \<le> j \<Longrightarrow> j \<le> int k \<Longrightarrow> \<not> cap_reached (max_bytes c) (j * chunk_bytes c)"
    and reached: "cap_reached (max_bytes c) (int (Suc k) * chunk_bytes c)"
  shows "\<exists>s. run_iters (Suc k) env c (ramp_prologue env c)
               = Inl (MemoryError (cap_message (the (max_bytes c))), s)
           \<and> allocations s = replicate (Suc k) (chunk_bytes c) \<and> i s = int (Suc k)
           \<and> trace s = trace (ramp_prologue env c) @ ramp_events c k @ pass_events c (int (Suc k))"
proof -
  have "\<exists>s. run_iters k env c (ramp_prologue env c) = Inr s
           \<and> allocations s = replicate k (chunk_bytes c) \<and> i s = int k
           \<and> trace s = trace (ramp_prologue env c) @ ramp_events c k"
  proof (cases "k = 0")
    case True
    then show ?thesis by (simp add: prologue_fields)
  next
    case False
    with sl have s: "sleep_accepted (sleep_seconds c)" by simp
    have m: "chunks_obtainable env (chunk_bytes c) k"
      using mem by (rule chunks_obtainable_less) simp
    from m s below show ?thesis by (rule run_iters_running)
  qed
  then obtain s where s: "run_iters k env c (ramp_prologue env c) = Inr s"
    "allocations s = replicate k (chunk_bytes c)" "i s = int k"
    "trace s = trace (ramp_prologue env c) @ ramp_events c k"
    by blast
  have al: "bytearray env (allocations s) (chunk_bytes c) = Inr (chunk_bytes c)"
    unfolding s(2) using mem by (rule chunks_obtainableD) simp
  have r: "cap_reached (max_bytes c) ((i s + 1) * chunk_bytes c)"
    using reached s(3) by (simp add: add.commute)
  have lb: "loop_body env c s
      = Inl (MemoryError (cap_message (the (max_bytes c))), chunk_logged env c s)"
    using r by (simp add: loop_body_cases al)
  let ?s' = "chunk_logged env c s"
  have "run_iters (Suc k) env c (ramp_prologue env c)
      = Inl (MemoryError (cap_message (the (max_bytes c))), ?s')"
    unfolding run_iters_Suc_end using s(1) lb by simp
  moreover have "allocations ?s' = replicate (Suc k) (chunk_bytes c)"
    using s(2) by (simp add: chunk_logged_fields replicate_append_same)
  moreover have "i ?s' = int (Suc k)"
    using s(3) by (simp add: chunk_logged_fields)
  moreover have "trace ?s' = trace (ramp_prologue env c) @ ramp_events c k @ pass_events c (int (Suc k))"
    using s(3,4) by (simp add: chunk_logged_fields add.commute)
  ultimately show ?thesis by blast
qed

subsection \<open>The number of chunks up to the cap\<close>

lemma chunks_needed_int:
  assumes "0 < C" "0 < B"
  shows "int (chunks_needed C B) = \<lceil>real_of_int C / real_of_int B\<rceil>"
proof -
  have "0 < real_of_int C / real_of_int B" using assms by simp
  then have "0 < \<lceil>real_of_int C / real_of_int B\<rceil>" by (simp only: zero_less_ceiling)
  then show ?thesis by (simp only: chunks_needed_def nat_0_le less_imp_le)
qed

lemma chunks_needed_pos:
  assumes "0 < C" "0 < B"
  shows "1 \<le> chunks_needed C B"
proof -
  have "0 < real_of_int C / real_of_int B" using assms by simp
  then have "0 < \<lceil>real_of_int C / real_of_int B\<rceil>" by (simp only: zero_less_ceiling)
  then have "0 < int (chunks_needed C B)" by (simp only: chunks_needed_int[OF assms])
  then show ?thesis by simp
qed

lemma chunks_needed_below:
  assumes "0 < B" "0 < C" "j < int (chunks_needed C B)"
  shows "j * B < C"
proof -
  have "j < \<lceil>real_of_int C / real_of_int B\<rceil>"
    using assms(3) by (simp only: chunks_needed_int[OF assms(2,1)])
  then have "real_of_int j < real_of_int C / real_of_int B" by (simp only: less_ceiling_iff)
  then have "real_of_int j * real_of_int B < real_of_int C"
    using assms(1) by (simp add: pos_less_divide_eq)
  then have "real_of_int (j * B) < real_of_int C" by simp
  then show ?thesis by (simp only: of_int_less_iff)
qed

lemma chunks_needed_reaches:
  assumes "0 < B" "0 < C"
  shows "C \<le> int (chunks_needed C B) * B"
proof -
  have n: "int (chunks_needed C B) = \<lceil>real_of_int C / real_of_int B\<rceil>"
    using assms(2,1) by (rule chunks_needed_int)
  have "real_of_int C / real_of_int B \<le> real_of_int (int (chunks_needed C B))"
    unfolding n by (rule le_of_int_ceiling)
  then have "real_of_int C \<le> real_of_int (int (chunks_needed C B)) * real_of_int B"
    using assms(1) by (simp add: pos_divide_le_eq)
  then have "real_of_int C \<le> real_of_int (int (chunks_needed C B) * B)" by simp
  then show ?thesis by (simp only: of_int_le_iff)
qed

lemma locals_fields:
  "chunk_bytes (ramp_locals_of cap cm sl) = cm * 1024 * 1024"
  "chunk_mb (ramp_locals_of cap cm sl) = cm"
  "sleep_seconds (ramp_locals_of cap cm sl) = sl"
  "max_bytes (ramp_locals_of cap cm sl) = (if cap \<noteq> 0 then Some (cap * 1024 * 1024) else None)"
  by (simp_all add: ramp_locals_of_def)

lemma on_memory_error_fields:
  "allocations (on_memory_error env exc s) = allocations s"
  "i (on_memory_error env exc s) = i s"
  "trace (emit (sink env) SpanEnd (on_memory_error env exc s)) = trace s @ failure_events exc"
  by (simp_all add: on_memory_error_def Let_def emit_fields failure_events_def)

lemma ramp_with_cap_raised:
  assumes "run_iters k env (ramp_locals_of cap cm sl) (ramp_prologue env (ramp_locals_of cap cm sl)) = Inl (exc, s)"
  shows "ramp_with_cap cap env cm sl =
           Some (exc, emit (sink env) SpanEnd (if is_MemoryError exc then on_memory_error env exc s else s))"
  using run_iters_Inl_ramp_loop[OF assms] by (simp add: ramp_with_cap_def Let_def)

lemma ramp_with_cap_capped:
  assumes cm: "0 < cm" and cap: "0 < cap"
    and mem: "chunks_obtainable env (cm * 1024 * 1024)
                (chunks_needed (cap * 1024 * 1024) (cm * 1024 * 1024))"
    and sl: "sleep_accepted sl \<or> chunks_needed (cap * 1024 * 1024) (cm * 1024 * 1024) = 1"
  shows "\<exists>s. ramp_with_cap cap env cm sl = Some (MemoryError (cap_message (cap * 1024 * 1024)), s)
           \<and> allocations s = replicate (chunks_needed (cap * 1024 * 1024) (cm * 1024 * 1024)) (cm * 1024 * 1024)
           \<and> i s = int (chunks_needed (cap * 1024 * 1024) (cm * 1024 * 1024))
           \<and> trace s = trace (ramp_prologue env (ramp_locals_of cap cm sl))
                @ ramp_events (ramp_locals_of cap cm sl) (chunks_needed (cap * 1024 * 1024) (cm * 1024 * 1024) - 1)
                @ pass_events (ramp_locals_of cap cm sl) (int (chunks_needed (cap * 1024 * 1024) (cm * 1024 * 1024)))
                @ failure_events (MemoryError (cap_message (cap * 1024 * 1024)))"
proof -
  let ?c = "ramp_locals_of cap cm sl"
  let ?B = "cm * 1024 * 1024" and ?C = "cap * 1024 * 1024"
  let ?n = "chunks_needed ?C ?B"
  have B: "0 < ?B" and C: "0 < ?C" using cm cap by simp_all
  have n1: "1 \<le> ?n" using C B by (rule chunks_needed_pos)
  then obtain k where k: "?n = Suc k" by (cases ?n) simp_all
  have mb: "max_bytes ?c = Some ?C" using cap by (simp add: locals_fields)
  have cr: "\<And>x. cap_reached (max_bytes ?c) x \<longleftrightarrow> ?C \<le> x"
    using C by (simp add: mb cap_reached_def)
  have below: "\<And>j. 1 \<le> j \<Longrightarrow> j \<le> int k \<Longrightarrow> \<not> cap_reached (max_bytes ?c) (j * chunk_bytes ?c)"
  proof -
    fix j :: int assume "1 \<le> j" "j \<le> int k"
    then have "j < int ?n" using k by simp
    with B C have "j * ?B < ?C" by (rule chunks_needed_below)
    then show "\<not> cap_reached (max_bytes ?c) (j * chunk_bytes ?c)"
      by (simp add: cr locals_fields(1))
  qed
  have reached: "cap_reached (max_bytes ?c) (int (Suc k) * chunk_bytes ?c)"
    using chunks_needed_reaches[OF B C] k by (simp add: cr locals_fields(1))
  have mem': "chunks_obtainable env (chunk_bytes ?c) (Suc k)"
    using mem k by (simp add: locals_fields(1))
  have sl': "sleep_accepted (sleep_seconds ?c) \<or> k = 0" using sl k by (simp add: locals_fields)
  obtain s where s: "run_iters (Suc k) env ?c (ramp_prologue env ?c)
               = Inl (MemoryError (cap_message (the (max_bytes ?c))), s)"
    "allocations s = replicate (Suc k) (chunk_bytes ?c)" "i s = int (Suc k)"
    "trace s = trace (ramp_prologue env ?c) @ ramp_events ?c k @ pass_events ?c (int (Suc k))"
    using run_iters_capped[OF mem' sl' below reached] by blast
  let ?exc = "MemoryError (cap_message ?C)"
  let ?s' = "emit (sink env) SpanEnd (on_memory_error env ?exc s)"
  have "ramp_with_cap cap env cm sl = Some (?exc, ?s')"
    using ramp_with_cap_raised[of "Suc k" env cap cm sl ?exc s] s(1) by (simp add: mb)
  moreover have "allocations ?s' = replicate ?n ?B"
    using s(2) k by (simp add: emit_fields on_memory_error_fields locals_fields)
  moreover have "i ?s' = int ?n"
    using s(3) k by (simp add: emit_fields on_memory_error_fields)
  moreover have "trace ?s' = trace (ramp_prologue env ?c) @ ramp_events ?c (?n - 1)
      @ pass_events ?c (int ?n) @ failure_events ?exc"
    using s(4) k by (simp add: on_memory_error_fields)
  ultimately show ?thesis by blast
qed

subsection \<open>The \<open>finally\<close> block\<close>

lemma run_shutdowns_split:
  "\<forall>u \<in> set pre. sh u = None \<Longrightarrow> sh t = Some e \<Longrightarrow>
     run_shutdowns sh (pre @ t # post) = (pre @ [t], Some e)"
  by (induction pre) auto

lemma run_shutdowns_all:
  "\<forall>u \<in> set ts. sh u = None \<Longrightarrow> run_shutdowns sh ts = (ts, None)"
  by (induction ts) auto

lemma run_shutdowns_prefix:
  "fst (run_shutdowns sh ts) = take (Suc (length (takeWhile (\<lambda>t. sh t = None) ts))) ts"
  by (induction ts) (auto split: option.splits prod.splits)

lemma run_shutdowns_None:
  "snd (run_shutdowns sh ts) = None \<longleftrightarrow> (\<forall>u \<in> set ts. sh u = None)"
  by (induction ts) (auto split: option.splits prod.splits)

subsection \<open>The ramp up to the cap\<close>

lemma bytes_allocated_replicate:
  "allocations s = replicate n b \<Longrightarrow> bytes_allocated s = int n * b"
  by (simp add: bytes_allocated_def sum_list_replicate)

text \<open>
  C1, amended. For every cap and every chunk size greater than zero, provided the
  allocator serves each of the \<open>ceil(cap_bytes / chunk_size_bytes)\<close> chunks and
  \<open>time.sleep\<close> takes the delay, the ramp allocates exactly that many chunks and then
  raises its cap-reached \<open>MemoryError\<close>.  The bytes held at that point lie in
  \<open>[cap_bytes, cap_bytes + chunk_size_bytes)\<close>, so a cap that the chunk size divides is
  reached by the chunk that arrives at it (the test is \<open>\<ge>\<close>).  The trace shows where the
  test sits: every pass before the last is an allocation, its log record and the sleep;
  the last pass is an allocation and its log record, followed at once by the effects of
  the failure, with no sleep in between.
\<close>

theorem ramp_allocates_ceil_chunks_then_fails:
  assumes "0 < cm" and "0 < max_mb_env"
    and "chunks_obtainable env (cm * 1024 * 1024)
           (chunks_needed (max_mb_env * 1024 * 1024) (cm * 1024 * 1024))"
    and "sleep_accepted sl"
  shows "\<exists>s. ramp_with_cap max_mb_env env cm sl
               = Some (MemoryError (cap_message (max_mb_env * 1024 * 1024)), s)
           \<and> chunks_allocated s = chunks_needed (max_mb_env * 1024 * 1024) (cm * 1024 * 1024)
           \<and> i s = int (chunks_needed (max_mb_env * 1024 * 1024) (cm * 1024 * 1024))
           \<and> max_mb_env * 1024 * 1024 \<le> bytes_allocated s
           \<and> bytes_allocated s < max_mb_env * 1024 * 1024 + cm * 1024 * 1024
           \<and> trace s = trace (ramp_prologue env (ramp_locals_of max_mb_env cm sl))
                @ ramp_events (ramp_locals_of max_mb_env cm sl)
                    (chunks_needed (max_mb_env * 1024 * 1024) (cm * 1024 * 1024) - 1)
                @ pass_events (ramp_locals_of max_mb_env cm sl)
                    (int (chunks_needed (max_mb_env * 1024 * 1024) (cm * 1024 * 1024)))
                @ failure_events (MemoryError (cap_message (max_mb_env * 1024 * 1024)))"
proof -
  let ?B = "cm * 1024 * 1024" and ?C = "max_mb_env * 1024 * 1024"
  let ?n = "chunks_needed ?C ?B"
  have B: "0 < ?B" and C: "0 < ?C" using assms by simp_all
  have sl: "sleep_accepted sl \<or> ?n = 1" using assms(4) by simp
  obtain s where s: "ramp_with_cap max_mb_env env cm sl = Some (MemoryError (cap_message ?C), s)"
    "allocations s = replicate ?n ?B" "i s = int ?n"
    "trace s = trace (ramp_prologue env (ramp_locals_of max_mb_env cm sl))
                @ ramp_events (ramp_locals_of max_mb_env cm sl) (?n - 1)
                @ pass_events (ramp_locals_of max_mb_env cm sl) (int ?n)
                @ failure_events (MemoryError (cap_message ?C))"
    using ramp_with_cap_capped[OF assms(1,2,3) sl] by blast
  have bytes: "bytes_allocated s = int ?n * ?B"
    using s(2) by (rule bytes_allocated_replicate)
  have chunks: "chunks_allocated s = ?n"
    using s(2) by (simp add: chunks_allocated_def)
  have lo: "?C \<le> bytes_allocated s"
    unfolding bytes using B C by (rule chunks_needed_reaches)
  have "int ?n - 1 < int ?n" by simp
  with B C have "(int ?n - 1) * ?B < ?C" by (rule chunks_needed_below)
  then have hi: "bytes_allocated s < ?C + ?B"
    unfolding bytes by (simp add: algebra_simps)
  show ?thesis using s(1) chunks s(3) lo hi s(4) by blast
qed

lemma chunks_needed_400_10: "chunks_needed (400 * 1024 * 1024) (10 * 1024 * 1024) = 40"
  by (simp add: chunks_needed_def)

lemma bytearray_reachable:
  "0 \<le> n \<Longrightarrow> n \<le> sys_maxsize \<Longrightarrow> bytearray env_reachable held n = Inr n"
  by (simp add: bytearray_def env_reachable_def sys_maxsize_def)

lemma chunks_obtainable_reachable:
  "0 \<le> b \<Longrightarrow> b \<le> sys_maxsize \<Longrightarrow> chunks_obtainable env_reachable b n"
  by (simp add: chunks_obtainable_def bytearray_reachable)

lemma sleep_accepted_examples:
  "sleep_accepted 0" "sleep_accepted (1 / 2)"
  by (simp_all add: sleep_accepted_def time_sleep_def sleep_ns_def)

theorem ramp_allocates_ceil_chunks_then_fails_witness:
  "(0::int) < 10 \<and> (0::int) < 400
   \<and> chunks_obtainable env_reachable (10 * 1024 * 1024) 40
   \<and> sleep_accepted (1 / 2)
   \<and> (\<exists>s. ramp_with_cap 400 env_reachable 10 (1 / 2)
               = Some (MemoryError (cap_message (400 * 1024 * 1024)), s)
          \<and> chunks_allocated s = 40
          \<and> 400 * 1024 * 1024 \<le> bytes_allocated s
          \<and> bytes_allocated s < 400 * 1024 * 1024 + 10 * 1024 * 1024)"
proof -
  have h: "(0::int) < 10" "(0::int) < 400" by simp_all
  have m: "chunks_obtainable env_reachable (10 * 1024 * 1024)
      (chunks_needed (400 * 1024 * 1024) (10 * 1024 * 1024))"
    by (rule chunks_obtainable_reachable) (simp_all add: sys_maxsize_def)
  have sl: "sleep_accepted (1 / 2)" by (rule sleep_accepted_examples)
  from ramp_allocates_ceil_chunks_then_fails[OF h m sl]
  show ?thesis using m sl unfolding chunks_needed_400_10 by (intro conjI h) blast+
qed

lemma ramp_400_200_negative_delay:
  "ramp_with_cap 400 env_reachable 200 (- 1)
     = Some (ValueError ''sleep length must be non-negative'',
             emit (sink env_reachable) SpanEnd
               (chunk_logged env_reachable (ramp_locals_of 400 200 (- 1))
                 (ramp_prologue env_reachable (ramp_locals_of 400 200 (- 1)))))"
proof -
  have "run_iters (Suc 0) env_reachable (ramp_locals_of 400 200 (- 1))
          (ramp_prologue env_reachable (ramp_locals_of 400 200 (- 1)))
      = Inl (ValueError ''sleep length must be non-negative'',
             chunk_logged env_reachable (ramp_locals_of 400 200 (- 1))
               (ramp_prologue env_reachable (ramp_locals_of 400 200 (- 1))))"
    by (simp add: loop_body_cases locals_fields prologue_fields cap_reached_def
        bytearray_reachable sys_maxsize_def time_sleep_def sleep_ns_def)
  from ramp_with_cap_raised[OF this] show ?thesis by simp
qed

lemma ramp_400_huge_chunk:
  "ramp_with_cap 400 env_reachable 17592186044416 0
     = Some (OverflowError ''cannot fit 'int' into an index-sized integer'',
             emit (sink env_reachable) SpanEnd
               (ramp_prologue env_reachable (ramp_locals_of 400 17592186044416 0)))"
proof -
  have "run_iters (Suc 0) env_reachable (ramp_locals_of 400 17592186044416 0)
          (ramp_prologue env_reachable (ramp_locals_of 400 17592186044416 0))
      = Inl (OverflowError ''cannot fit 'int' into an index-sized integer'',
             ramp_prologue env_reachable (ramp_locals_of 400 17592186044416 0))"
    by (simp add: loop_body_cases locals_fields bytearray_def sys_maxsize_def)
  from ramp_with_cap_raised[OF this] show ?thesis by simp
qed

text \<open>
  C1, as stated, fails.  With a cap of 400 MB, chunks of 200 MB and a delay of \<open>-1\<close>,
  two chunks are needed to reach the cap, but \<open>time.sleep\<close> raises \<open>ValueError\<close> after
  the first one.  With chunks of \<open>2^44\<close> MB the first \<open>bytearray\<close> raises
  \<open>OverflowError\<close>, and no chunk is allocated.
\<close>

theorem ramp_stopped_before_cap_counterexample:
  "chunks_needed (400 * 1024 * 1024) (200 * 1024 * 1024) = 2
   \<and> map_option fst (ramp_with_cap 400 env_reachable 200 (- 1))
       = Some (ValueError ''sleep length must be non-negative'')
   \<and> map_option (chunks_allocated \<circ> snd) (ramp_with_cap 400 env_reachable 200 (- 1)) = Some 1
   \<and> map_option fst (ramp_with_cap 400 env_reachable 17592186044416 0)
       = Some (OverflowError ''cannot fit 'int' into an index-sized integer'')
   \<and> map_option (chunks_allocated \<circ> snd) (ramp_with_cap 400 env_reachable 17592186044416 0)
       = Some 0"
  unfolding ramp_400_200_negative_delay ramp_400_huge_chunk
  by (simp add: chunks_needed_def chunks_allocated_def emit_fields chunk_logged_fields
      prologue_fields)

subsection \<open>Shutdown and exit status\<close>

text \<open>
  C5. However the call of \<open>ramp_memory_and_fail\<close> ends (it returns, it raises
  \<open>MemoryError\<close>, or another exception such as an interrupt passes through), the
  \<open>finally\<close> block runs: the shutdown calls made are an initial part of the fixed order,
  beginning with the span processor, none is made twice, and when every call returns
  the whole sequence is made: span processor, log processor, metric reader, then the
  logger provider and the meter provider.
\<close>

theorem shutdown_sequence_on_every_exit_path:
  "(\<exists>n. fst (main_try r sh) = take (Suc n) shutdown_order)
   \<and> distinct (fst (main_try r sh))
   \<and> ((\<forall>t. sh t = None) \<longrightarrow>
        fst (main_try r sh)
          = [Span_processor, Log_processor, Metric_reader, Logger_provider, Meter_provider])"
proof -
  have calls: "fst (main_try r sh) = fst (run_shutdowns sh shutdown_order)"
    by (simp add: main_try_def Let_def split: prod.splits option.splits)
  have pre: "fst (main_try r sh)
      = take (Suc (length (takeWhile (\<lambda>t. sh t = None) shutdown_order))) shutdown_order"
    unfolding calls by (rule run_shutdowns_prefix)
  have d: "distinct shutdown_order" by (simp add: shutdown_order_def)
  have "distinct (fst (main_try r sh))"
    unfolding pre using d by (rule distinct_take)
  moreover have "(\<forall>t. sh t = None) \<longrightarrow> fst (main_try r sh)
          = [Span_processor, Log_processor, Metric_reader, Logger_provider, Meter_provider]"
    unfolding calls by (simp add: run_shutdowns_all shutdown_order_def)
  ultimately show ?thesis using pre by blast
qed

theorem shutdown_sequence_on_every_exit_path_witness:
  "(\<forall>t. all_shutdowns_return t = None)
   \<and> fst (main_try (Inl KeyboardInterrupt) all_shutdowns_return)
       = [Span_processor, Log_processor, Metric_reader, Logger_provider, Meter_provider]
   \<and> fst (main_try (Inr ()) all_shutdowns_return)
       = [Span_processor, Log_processor, Metric_reader, Logger_provider, Meter_provider]"
  using shutdown_sequence_on_every_exit_path[of "Inl KeyboardInterrupt" all_shutdowns_return]
    shutdown_sequence_on_every_exit_path[of "Inr ()" all_shutdowns_return]
  by (simp add: all_shutdowns_return_def)

text \<open>
  C6, as stated, fails: when the shutdown of the span processor raises, the log
  processor is not shut down.
\<close>

theorem failed_flush_skips_later_channels_counterexample:
  "span_processor_fails Span_processor = Some (RuntimeError ''export failed'')
   \<and> fst (main_try (Inl (MemoryError ''Reached demo cap of 400.0 MB'')) span_processor_fails)
       = [Span_processor]
   \<and> Log_processor \<notin> set (fst (main_try (Inl (MemoryError ''Reached demo cap of 400.0 MB''))
                                 span_processor_fails))"
  by (simp add: span_processor_fails_def main_try_def shutdown_order_def)

text \<open>
  C6, amended. The shutdown calls are made one after the other with nothing between
  them that catches an exception: the first call that raises is the last one made, the
  later channels are not flushed, and its exception leaves \<open>main\<close> in place of whatever
  was on its way.
\<close>

theorem shutdown_stops_at_first_failing_flush:
  assumes "shutdown_order = pre @ t # post"
    and "\<forall>u \<in> set pre. sh u = None"
    and "sh t = Some e"
  shows "main_try r sh = (pre @ [t], Propagated e)"
  using run_shutdowns_split[OF assms(2,3), of post] assms(1)
  by (simp add: main_try_def Let_def)

theorem shutdown_stops_at_first_failing_flush_witness:
  "shutdown_order = [Span_processor] @ Log_processor # [Metric_reader, Logger_provider, Meter_provider]
   \<and> log_processor_fails Span_processor = None
   \<and> log_processor_fails Log_processor = Some (RuntimeError ''export failed'')
   \<and> main_try (Inl (MemoryError ''Reached demo cap of 400.0 MB'')) log_processor_fails
       = ([Span_processor, Log_processor], Propagated (RuntimeError ''export failed''))"
proof -
  have a: "shutdown_order = [Span_processor] @ Log_processor # [Metric_reader, Logger_provider, Meter_provider]"
    by (simp add: shutdown_order_def)
  have b: "\<forall>u \<in> set [Span_processor]. log_processor_fails u = None"
    by (simp add: log_processor_fails_def)
  have c: "log_processor_fails Log_processor = Some (RuntimeError ''export failed'')"
    by (simp add: log_processor_fails_def)
  show ?thesis
    using a b c shutdown_stops_at_first_failing_flush[OF a b c] by simp
qed

lemma main_try_no_raise:
  "\<forall>t \<in> set shutdown_order. sh t = None \<Longrightarrow>
     snd (main_try r sh) = (case r of Inr u \<Rightarrow> Returned
        | Inl e \<Rightarrow> if is_MemoryError e then SysExit 1 else Propagated e)"
  by (simp add: main_try_def Let_def run_shutdowns_all)

lemma main_try_raise:
  "\<not> (\<forall>t \<in> set shutdown_order. sh t = None) \<Longrightarrow>
     \<exists>t e. sh t = Some e \<and> snd (main_try r sh) = Propagated e"
proof -
  assume a: "\<not> (\<forall>t \<in> set shutdown_order. sh t = None)"
  then have "snd (run_shutdowns sh shutdown_order) \<noteq> None"
    by (simp only: run_shutdowns_None not_False_eq_True)
  then obtain cs e where r: "run_shutdowns sh shutdown_order = (cs, Some e)"
    by (cases "run_shutdowns sh shutdown_order") auto
  have "\<And>ts cs. run_shutdowns sh ts = (cs, Some e) \<Longrightarrow> \<exists>t. sh t = Some e"
  proof -
    fix ts cs show "run_shutdowns sh ts = (cs, Some e) \<Longrightarrow> \<exists>t. sh t = Some e"
      by (induction ts arbitrary: cs) (auto split: option.splits prod.splits)
  qed
  then obtain t where "sh t = Some e" using r by blast
  moreover have "snd (main_try r sh) = Propagated e" using r by (simp add: main_try_def Let_def)
  ultimately show ?thesis by blast
qed

text \<open>
  C7, as stated, fails: the ramp fails by the \<open>MemoryError\<close> of the cap, the shutdown of
  the metric reader is interrupted, and the process is ended by the signal instead of
  leaving with status 1.
\<close>

theorem interrupted_shutdown_exit_counterexample:
  "is_MemoryError (MemoryError ''Reached demo cap of 400.0 MB'')
   \<and> exit_status (snd (main_try (Inl (MemoryError ''Reached demo cap of 400.0 MB''))
                          metric_reader_interrupted)) = KilledBySIGINT
   \<and> exit_status (snd (main_try (Inl (MemoryError ''Reached demo cap of 400.0 MB''))
                          metric_reader_interrupted)) \<noteq> ExitCode 1"
  by (simp add: main_try_def shutdown_order_def metric_reader_interrupted_def)

text \<open>
  C7, amended. When the ramp fails by \<open>MemoryError\<close> and no shutdown call is
  interrupted, the process ends with status 1; and the process ends with status 0 only
  if the ramp returned and every shutdown call returned.
\<close>

theorem exit_status_encodes_outcome:
  "(is_MemoryError e \<longrightarrow> (\<forall>t. sh t \<noteq> Some KeyboardInterrupt) \<longrightarrow>
      exit_status (snd (main_try (Inl e) sh)) = ExitCode 1)
   \<and> (exit_status (snd (main_try r sh)) = ExitCode 0 \<longrightarrow>
        r = Inr () \<and> (\<forall>t \<in> set shutdown_order. sh t = None))"
proof (intro conjI impI)
  assume m: "is_MemoryError e" and nk: "\<forall>t. sh t \<noteq> Some KeyboardInterrupt"
  show "exit_status (snd (main_try (Inl e) sh)) = ExitCode 1"
  proof (cases "\<forall>t \<in> set shutdown_order. sh t = None")
    case True
    then show ?thesis using m by (simp add: main_try_no_raise)
  next
    case False
    then obtain t x where tx: "sh t = Some x" "snd (main_try (Inl e) sh) = Propagated x"
      using main_try_raise by blast
    with nk have "x \<noteq> KeyboardInterrupt" by auto
    then show ?thesis unfolding tx(2) by (cases x) simp_all
  qed
next
  assume z: "exit_status (snd (main_try r sh)) = ExitCode 0"
  have all: "\<forall>t \<in> set shutdown_order. sh t = None"
  proof (rule ccontr)
    assume "\<not> (\<forall>t \<in> set shutdown_order. sh t = None)"
    then obtain t x where "snd (main_try r sh) = Propagated x"
      using main_try_raise by blast
    with z show False by (cases x) simp_all
  qed
  have "r = Inr ()"
  proof (cases r)
    case (Inl x)
    with z all show ?thesis
      by (cases x) (simp_all add: main_try_no_raise)
  next
    case (Inr u)
    then show ?thesis by simp
  qed
  with all show "r = Inr ()" "\<forall>t \<in> set shutdown_order. sh t = None" by simp_all
qed

theorem exit_status_encodes_outcome_witness:
  "is_MemoryError (MemoryError ''Reached demo cap of 400.0 MB'')
   \<and> (\<forall>t. all_shutdowns_return t \<noteq> Some KeyboardInterrupt)
   \<and> exit_status (snd (main_try (Inl (MemoryError ''Reached demo cap of 400.0 MB'')) all_shutdowns_return))
       = ExitCode 1
   \<and> exit_status (snd (main_try (Inr ()) all_shutdowns_return)) = ExitCode 0
   \<and> (\<forall>t. all_shutdowns_return t = None)"
proof -
  have a: "is_MemoryError (MemoryError ''Reached demo cap of 400.0 MB'')" by simp
  have b: "\<forall>t. all_shutdowns_return t \<noteq> Some KeyboardInterrupt"
    by (simp add: all_shutdowns_return_def)
  have c: "exit_status (snd (main_try (Inr ()) all_shutdowns_return)) = ExitCode 0"
    by (simp add: main_try_def all_shutdowns_return_def shutdown_order_def)
  have d: "\<forall>t. all_shutdowns_return t = None"
    by (simp add: all_shutdowns_return_def)
  show ?thesis
    using a b c d
      exit_status_encodes_outcome[of "MemoryError ''Reached demo cap of 400.0 MB''"
        all_shutdowns_return "Inr ()"]
    by blast
qed

subsection \<open>What every pass preserves\<close>

lemma status_calls_append:
  "status_calls (xs @ ys) = status_calls xs @ status_calls ys"
  by (induction xs rule: status_calls.induct) simp_all

lemma ramp_inv_prologue: "ramp_inv c (ramp_prologue env c)"
  by (simp add: ramp_inv_def bytes_allocated_def chunks_allocated_def chunk_logs_def
      prologue_fields prologue_trace)

lemma ramp_inv_chunk_logged:
  assumes "ramp_inv c s"
  shows "ramp_inv c (chunk_logged env c s)"
    and "chunks_allocated (chunk_logged env c s) = Suc (chunks_allocated s)"
    and "bytes_allocated (chunk_logged env c s) = (i s + 1) * chunk_bytes c"
  using assms
  by (simp_all add: ramp_inv_def bytes_allocated_def chunks_allocated_def chunk_logs_def
      chunk_logged_fields pass_events_def status_calls_append algebra_simps)

lemma ramp_inv_sleep:
  "ramp_inv c s \<Longrightarrow> ramp_inv c (effect (Sleep x) s)"
  by (simp add: ramp_inv_def bytes_allocated_def chunks_allocated_def chunk_logs_def
      effect_fields status_calls_append)

lemma sleep_counts:
  "chunks_allocated (effect (Sleep x) s) = chunks_allocated s"
  "bytes_allocated (effect (Sleep x) s) = bytes_allocated s"
  by (simp_all add: bytes_allocated_def chunks_allocated_def effect_fields)

lemma ramp_inv_loop_body:
  assumes "ramp_inv c s"
  shows "ramp_inv c (state_of (loop_body env c s))"
  using assms
  by (simp add: loop_body_cases ramp_inv_chunk_logged ramp_inv_sleep split: sum.splits)

lemma chunks_loop_body:
  assumes "ramp_inv c s"
  shows "chunks_allocated s \<le> chunks_allocated (state_of (loop_body env c s))"
  using assms
  by (simp add: loop_body_cases ramp_inv_chunk_logged sleep_counts split: sum.splits)

lemma state_of_run_iters_Suc:
  "state_of (run_iters (Suc k) env c s0) =
     (case run_iters k env c s0 of Inl (e, s) \<Rightarrow> s | Inr s \<Rightarrow> state_of (loop_body env c s))"
  unfolding run_iters_Suc_end by (simp split: sum.splits prod.splits)

lemma ramp_inv_run_iters:
  "ramp_inv c (state_of (run_iters k env c (ramp_prologue env c)))"
proof (induction k)
  case 0
  show ?case by (simp add: ramp_inv_prologue)
next
  case (Suc k)
  show ?case
  proof (cases "run_iters k env c (ramp_prologue env c)")
    case (Inl r)
    with Suc show ?thesis unfolding run_iters_Suc_end by simp
  next
    case (Inr s)
    with Suc have "ramp_inv c s" by simp
    then have "ramp_inv c (state_of (loop_body env c s))" by (rule ramp_inv_loop_body)
    with Inr show ?thesis unfolding run_iters_Suc_end by simp
  qed
qed

lemma chunks_run_iters_mono:
  "chunks_allocated (state_of (run_iters k env c (ramp_prologue env c)))
     \<le> chunks_allocated (state_of (run_iters (Suc k) env c (ramp_prologue env c)))"
proof (cases "run_iters k env c (ramp_prologue env c)")
  case (Inl r)
  then show ?thesis unfolding run_iters_Suc_end by simp
next
  case (Inr s)
  have "ramp_inv c (state_of (run_iters k env c (ramp_prologue env c)))"
    by (rule ramp_inv_run_iters)
  with Inr have "ramp_inv c s" by simp
  then have "chunks_allocated s \<le> chunks_allocated (state_of (loop_body env c s))"
    by (rule chunks_loop_body)
  with Inr show ?thesis unfolding run_iters_Suc_end by simp
qed





text \<open>Below the cap until the failure.\<close>

lemma capped_only_when_failed:
  assumes z: "\<not> cap_reached (max_bytes c) 0"
  shows "cap_reached (max_bytes c) (bytes_allocated (state_of (run_iters k env c (ramp_prologue env c))))
     \<Longrightarrow> \<exists>e s. run_iters k env c (ramp_prologue env c) = Inl (e, s) \<and> is_MemoryError e"
proof (induction k)
  case 0
  with z show ?case by (simp add: bytes_allocated_def prologue_fields)
next
  case (Suc k)
  let ?R = "\<lambda>k. run_iters k env c (ramp_prologue env c)"
  show ?case
  proof (cases "?R k")
    case (Inl r)
    then have same: "?R (Suc k) = ?R k" unfolding run_iters_Suc_end by simp
    with Suc show ?thesis by simp
  next
    case (Inr s)
    have "ramp_inv c (state_of (?R k))" by (rule ramp_inv_run_iters)
    with Inr have inv: "ramp_inv c s" by simp
    have nc: "\<not> cap_reached (max_bytes c) (bytes_allocated s)"
      using Suc.IH Inr by auto
    have step: "?R (Suc k) = loop_body env c s" unfolding run_iters_Suc_end using Inr by simp
    from Suc.prems have "cap_reached (max_bytes c) (bytes_allocated (state_of (loop_body env c s)))"
      unfolding step .
    then show ?thesis unfolding step using nc
      by (auto simp: loop_body_cases ramp_inv_chunk_logged[OF inv] sleep_counts
          split: if_splits sum.splits)
  qed
qed

lemma ramp_with_cap_SomeD:
  assumes "ramp_with_cap cap env cm sl = Some (e, s)"
  shows "\<exists>k s0. run_iters k env (ramp_locals_of cap cm sl) (ramp_prologue env (ramp_locals_of cap cm sl)) = Inl (e, s0)
     \<and> ramp_loop env (ramp_locals_of cap cm sl) (ramp_prologue env (ramp_locals_of cap cm sl)) = Some (e, s0)
     \<and> s = emit (sink env) SpanEnd (if is_MemoryError e then on_memory_error env e s0 else s0)"
proof -
  let ?c = "ramp_locals_of cap cm sl"
  from assms obtain s0 where l: "ramp_loop env ?c (ramp_prologue env ?c) = Some (e, s0)"
    and s: "s = emit (sink env) SpanEnd (if is_MemoryError e then on_memory_error env e s0 else s0)"
    by (auto simp: ramp_with_cap_def Let_def split: option.splits)
  from l obtain k where "run_iters k env ?c (ramp_prologue env ?c) = Inl (e, s0)"
    using ramp_loop_Some_run_iters by blast
  with l s show ?thesis by blast
qed

subsection \<open>The invariant of the ramp\<close>

lemma cap_message_400: "cap_message (400 * 1024 * 1024) = ''Reached demo cap of 400.0 MB''"
  by (simp add: cap_message_def fmt_1f_def)

lemma cap_message_nonempty: "cap_message m \<noteq> []"
  by (simp add: cap_message_def)

lemma not_capped_at_zero:
  "0 \<le> cap \<Longrightarrow> \<not> cap_reached (max_bytes (ramp_locals_of cap cm sl)) 0"
  by (simp add: locals_fields cap_reached_def)

text \<open>
  C3. After every pass of the loop the bytes held are the number of chunks times the
  chunk size, and the number of chunks never decreases from one pass to the next.  Once
  a cap is configured and the bytes held have reached it, the loop has been left by
  \<open>MemoryError\<close>: the state stays as it is from then on, and the function ends with that
  exception without another allocation.
\<close>

theorem ramp_state_invariant:
  "bytes_allocated (state_after k cap env cm sl)
     = int (chunks_allocated (state_after k cap env cm sl)) * (cm * 1024 * 1024)
   \<and> chunks_allocated (state_after k cap env cm sl)
       \<le> chunks_allocated (state_after (Suc k) cap env cm sl)
   \<and> (0 \<le> cap \<longrightarrow>
       cap_reached (max_bytes (ramp_locals_of cap cm sl))
         (bytes_allocated (state_after k cap env cm sl)) \<longrightarrow>
       (\<exists>e s. run_iters k env (ramp_locals_of cap cm sl)
                 (ramp_prologue env (ramp_locals_of cap cm sl)) = Inl (e, s)
          \<and> is_MemoryError e
          \<and> (\<forall>j. state_after (k + j) cap env cm sl = s)
          \<and> (\<exists>s'. ramp_with_cap cap env cm sl = Some (e, s')
                \<and> allocations s' = allocations s \<and> i s' = i s)))"
proof (intro conjI impI)
  let ?c = "ramp_locals_of cap cm sl"
  let ?R = "\<lambda>k. run_iters k env ?c (ramp_prologue env ?c)"
  have sa: "\<And>k. state_after k cap env cm sl = state_of (?R k)"
    by (simp add: state_after_def Let_def)
  have inv: "ramp_inv ?c (state_of (?R k))" by (rule ramp_inv_run_iters)
  then show "bytes_allocated (state_after k cap env cm sl)
     = int (chunks_allocated (state_after k cap env cm sl)) * (cm * 1024 * 1024)"
    unfolding sa by (simp add: ramp_inv_def locals_fields(1))
  show "chunks_allocated (state_after k cap env cm sl)
       \<le> chunks_allocated (state_after (Suc k) cap env cm sl)"
    unfolding sa by (rule chunks_run_iters_mono)
  assume cap: "0 \<le> cap"
    and reached: "cap_reached (max_bytes ?c) (bytes_allocated (state_after k cap env cm sl))"
  from reached obtain e s where r: "?R k = Inl (e, s)" and m: "is_MemoryError e"
    using capped_only_when_failed[OF not_capped_at_zero[OF cap], of cm sl k env]
    unfolding sa by blast
  have stay: "\<forall>j. state_after (k + j) cap env cm sl = s"
    unfolding sa using run_iters_Inl_stable[OF r] by simp
  have "ramp_with_cap cap env cm sl = Some (e, emit (sink env) SpanEnd (on_memory_error env e s))"
    using ramp_with_cap_raised[OF r] m by simp
  then have "\<exists>s'. ramp_with_cap cap env cm sl = Some (e, s')
                \<and> allocations s' = allocations s \<and> i s' = i s"
    by (simp add: emit_fields on_memory_error_fields)
  with r m stay
  show "\<exists>e s. ?R k = Inl (e, s) \<and> is_MemoryError e
          \<and> (\<forall>j. state_after (k + j) cap env cm sl = s)
          \<and> (\<exists>s'. ramp_with_cap cap env cm sl = Some (e, s')
                \<and> allocations s' = allocations s \<and> i s' = i s)"
    by blast
qed

lemma first_pass_400:
  "run_iters (Suc 0) env_reachable (ramp_locals_of 400 400 0) (ramp_prologue env_reachable (ramp_locals_of 400 400 0))
     = Inl (MemoryError ''Reached demo cap of 400.0 MB'',
            chunk_logged env_reachable (ramp_locals_of 400 400 0) (ramp_prologue env_reachable (ramp_locals_of 400 400 0)))"
  using cap_message_400
  by (simp add: loop_body_cases locals_fields prologue_fields cap_reached_def
      bytearray_reachable sys_maxsize_def)

theorem ramp_state_invariant_witness:
  "(0::int) \<le> 400
   \<and> cap_reached (max_bytes (ramp_locals_of 400 400 0))
        (bytes_allocated (state_after (Suc 0) 400 env_reachable 400 0))
   \<and> bytes_allocated (state_after (Suc 0) 400 env_reachable 400 0) = 1 * (400 * 1024 * 1024)
   \<and> chunks_allocated (state_after (Suc 0) 400 env_reachable 400 0) = 1
   \<and> (\<exists>e s. run_iters (Suc 0) env_reachable (ramp_locals_of 400 400 0)
                 (ramp_prologue env_reachable (ramp_locals_of 400 400 0)) = Inl (e, s)
          \<and> is_MemoryError e
          \<and> (\<forall>j. state_after (Suc 0 + j) 400 env_reachable 400 0 = s)
          \<and> (\<exists>s'. ramp_with_cap 400 env_reachable 400 0 = Some (e, s')
                \<and> allocations s' = allocations s \<and> i s' = i s))"
proof -
  have a: "(0::int) \<le> 400" by simp
  have st: "state_after (Suc 0) 400 env_reachable 400 0
      = chunk_logged env_reachable (ramp_locals_of 400 400 0)
          (ramp_prologue env_reachable (ramp_locals_of 400 400 0))"
    unfolding state_after_def Let_def first_pass_400 by simp
  have ch: "chunks_allocated (state_after (Suc 0) 400 env_reachable 400 0) = 1"
    unfolding st by (simp add: chunks_allocated_def chunk_logged_fields prologue_fields)
  have bts: "bytes_allocated (state_after (Suc 0) 400 env_reachable 400 0) = 1 * (400 * 1024 * 1024)"
    unfolding st by (simp add: bytes_allocated_def chunk_logged_fields prologue_fields locals_fields)
  have b: "cap_reached (max_bytes (ramp_locals_of 400 400 0))
        (bytes_allocated (state_after (Suc 0) 400 env_reachable 400 0))"
    unfolding bts by (simp add: locals_fields cap_reached_def)
  show ?thesis
    using a b bts ch ramp_state_invariant[of "Suc 0" 400 env_reachable 400 0]
    by blast
qed

subsection \<open>Log records, the status of the span, and the failure\<close>

lemma on_memory_error_trace:
  "trace (on_memory_error env exc s) = trace s @
     [LogRecord LOG_ERROR ''MemoryError triggered; demo complete'' [] (Some exc),
      RecordException exc,
      SetStatus StatusCode_ERROR (str_exc exc)]"
  by (simp add: on_memory_error_def Let_def emit_fields)



lemma ramp_400_400:
  "ramp_with_cap 400 env_reachable 400 0
     = Some (MemoryError ''Reached demo cap of 400.0 MB'',
             emit (sink env_reachable) SpanEnd
               (on_memory_error env_reachable (MemoryError ''Reached demo cap of 400.0 MB'')
                 (chunk_logged env_reachable (ramp_locals_of 400 400 0)
                   (ramp_prologue env_reachable (ramp_locals_of 400 400 0)))))"
  using ramp_with_cap_raised[OF first_pass_400] by simp

lemma ramp_loop_400_400:
  "ramp_loop env_reachable (ramp_locals_of 400 400 0)
       (ramp_prologue env_reachable (ramp_locals_of 400 400 0))
     = Some (MemoryError ''Reached demo cap of 400.0 MB'',
             chunk_logged env_reachable (ramp_locals_of 400 400 0)
               (ramp_prologue env_reachable (ramp_locals_of 400 400 0)))"
  using first_pass_400 by (rule run_iters_Inl_ramp_loop)









text \<open>
  C4, as stated, fails: in the run with one chunk of 400 MB the log record at error
  level comes before the exception is recorded on the span and before the status is
  set, not after.
\<close>

theorem failure_log_precedes_span_record_counterexample:
  "map_option fst (ramp_memory_and_fail env_reachable 400 0)
     = Some (MemoryError ''Reached demo cap of 400.0 MB'')
   \<and> map_option (trace \<circ> snd) (ramp_memory_and_fail env_reachable 400 0)
     = Some [SpanStart ''oom-demo'',
             SetAttribute ''demo.chunk_mb'' (AttrInt 400),
             SetAttribute ''demo.sleep_seconds'' (AttrFloat 0),
             SetAttribute ''demo.max_bytes'' (AttrInt 419430400),
             LogRecord LOG_INFO ''Starting memory ramp'' [(''chunk_mb'', 400)] None,
             Allocate 419430400,
             LogRecord LOG_INFO ''Allocated chunk'' [(''chunk_index'', 1), (''allocated_mb'', 400)] None,
             LogRecord LOG_ERROR ''MemoryError triggered; demo complete'' []
               (Some (MemoryError ''Reached demo cap of 400.0 MB'')),
             RecordException (MemoryError ''Reached demo cap of 400.0 MB''),
             SetStatus StatusCode_ERROR ''Reached demo cap of 400.0 MB'',
             SpanEnd]"
  unfolding ramp_memory_and_fail_def ramp_400_400
  by (simp add: on_memory_error_fields chunk_logged_fields prologue_trace prologue_fields
      pass_events_def failure_events_def locals_fields)

text \<open>
  C4, amended. When the loop is left by \<open>MemoryError\<close>, the function first emits one log
  record at error level, then records the exception on the span, then sets the status
  \<open>ERROR\<close> with the message of the exception, and then lets the same exception leave:
  it allocates nothing more and does not try again.
\<close>

theorem failure_is_logged_recorded_and_reraised:
  assumes "ramp_with_cap cap env cm sl = Some (e, s)" and "is_MemoryError e"
  shows "\<exists>s0. ramp_loop env (ramp_locals_of cap cm sl) (ramp_prologue env (ramp_locals_of cap cm sl))
                 = Some (e, s0)
           \<and> trace s = trace s0 @
               [LogRecord LOG_ERROR ''MemoryError triggered; demo complete'' [] (Some e),
                RecordException e,
                SetStatus StatusCode_ERROR (str_exc e),
                SpanEnd]
           \<and> allocations s = allocations s0 \<and> i s = i s0"
proof -
  obtain k :: nat and s0 where l: "ramp_loop env (ramp_locals_of cap cm sl)
        (ramp_prologue env (ramp_locals_of cap cm sl)) = Some (e, s0)"
    and s: "s = emit (sink env) SpanEnd (if is_MemoryError e then on_memory_error env e s0 else s0)"
    using ramp_with_cap_SomeD[OF assms(1)] by blast
  have "trace s = trace s0 @ failure_events e"
    unfolding s using assms(2) by (simp add: on_memory_error_fields)
  moreover have "allocations s = allocations s0" "i s = i s0"
    unfolding s using assms(2) by (simp_all add: emit_fields on_memory_error_fields)
  ultimately show ?thesis using l by (simp add: failure_events_def)
qed

theorem failure_is_logged_recorded_and_reraised_witness:
  "\<exists>s s0. ramp_with_cap 400 env_reachable 400 0
            = Some (MemoryError ''Reached demo cap of 400.0 MB'', s)
      \<and> is_MemoryError (MemoryError ''Reached demo cap of 400.0 MB'')
      \<and> ramp_loop env_reachable (ramp_locals_of 400 400 0)
           (ramp_prologue env_reachable (ramp_locals_of 400 400 0))
            = Some (MemoryError ''Reached demo cap of 400.0 MB'', s0)
      \<and> trace s = trace s0 @
               [LogRecord LOG_ERROR ''MemoryError triggered; demo complete'' []
                  (Some (MemoryError ''Reached demo cap of 400.0 MB'')),
                RecordException (MemoryError ''Reached demo cap of 400.0 MB''),
                SetStatus StatusCode_ERROR ''Reached demo cap of 400.0 MB'',
                SpanEnd]
      \<and> allocations s = allocations s0"
proof -
  obtain s where s: "ramp_with_cap 400 env_reachable 400 0
          = Some (MemoryError ''Reached demo cap of 400.0 MB'', s)"
    using ramp_400_400 by blast
  have m: "is_MemoryError (MemoryError ''Reached demo cap of 400.0 MB'')" by simp
  from failure_is_logged_recorded_and_reraised[OF s m]
  show ?thesis using s m by auto
qed

subsection \<open>The sink\<close>

lemma ramp_view_eq:
  "ramp_view s = ramp_view s' \<longleftrightarrow>
     allocations s = allocations s' \<and> i s = i s' \<and> trace s = trace s'"
  by (simp add: ramp_view_def)

lemma view_chunk_logged:
  assumes "ramp_view s = ramp_view s'"
  shows "ramp_view (chunk_logged a c s) = ramp_view (chunk_logged b c s')"
proof -
  from assms have "allocations s = allocations s'" "i s = i s'" "trace s = trace s'"
    by (simp_all add: ramp_view_eq)
  then show ?thesis by (simp add: ramp_view_eq chunk_logged_fields)
qed

lemma view_effect:
  assumes "ramp_view s = ramp_view s'"
  shows "ramp_view (effect e s) = ramp_view (effect e s')"
proof -
  from assms have "allocations s = allocations s'" "i s = i s'" "trace s = trace s'"
    by (simp_all add: ramp_view_eq)
  then show ?thesis by (simp add: ramp_view_eq effect_fields)
qed

lemma view_emit:
  assumes "ramp_view s = ramp_view s'"
  shows "ramp_view (emit a e s) = ramp_view (emit b e s')"
proof -
  from assms have "allocations s = allocations s'" "i s = i s'" "trace s = trace s'"
    by (simp_all add: ramp_view_eq)
  then show ?thesis by (simp add: ramp_view_eq emit_def)
qed

lemma view_on_memory_error:
  assumes "ramp_view s = ramp_view s'"
  shows "ramp_view (on_memory_error a e s) = ramp_view (on_memory_error b e s')"
proof -
  from assms have "allocations s = allocations s'" "i s = i s'" "trace s = trace s'"
    by (simp_all add: ramp_view_eq)
  then show ?thesis by (simp add: ramp_view_eq on_memory_error_fields on_memory_error_trace)
qed

lemma view_prologue: "ramp_view (ramp_prologue a c) = ramp_view (ramp_prologue b c)"
  by (simp add: ramp_view_eq prologue_fields prologue_trace)

lemma bytearray_same_memory:
  "can_allocate a = can_allocate b \<Longrightarrow> bytearray a held n = bytearray b held n"
  by (simp add: bytearray_def)

lemma loop_body_view:
  assumes mem: "can_allocate a = can_allocate b" and v: "ramp_view s = ramp_view s'"
  shows "outcome_view (loop_body a c s) = outcome_view (loop_body b c s')"
proof -
  have al: "allocations s = allocations s'" and ii: "i s = i s'"
    using v by (simp_all add: ramp_view_eq)
  have ba: "bytearray a (allocations s) (chunk_bytes c) = bytearray b (allocations s') (chunk_bytes c)"
    unfolding al using mem by (rule bytearray_same_memory)
  have cl: "ramp_view (chunk_logged a c s) = ramp_view (chunk_logged b c s')"
    using v by (rule view_chunk_logged)
  have sl: "ramp_view (effect (Sleep (sleep_seconds c)) (chunk_logged a c s))
      = ramp_view (effect (Sleep (sleep_seconds c)) (chunk_logged b c s'))"
    using cl by (rule view_effect)
  show ?thesis
  proof (cases "bytearray b (allocations s') (chunk_bytes c)")
    case (Inl e)
    then show ?thesis unfolding loop_body_cases ba by (simp add: v)
  next
    case (Inr n)
    show ?thesis
    proof (cases "cap_reached (max_bytes c) ((i s' + 1) * chunk_bytes c)")
      case True
      then show ?thesis unfolding loop_body_cases ba ii Inr by (simp add: cl)
    next
      case False
      show ?thesis
      proof (cases "time_sleep (sleep_seconds c)")
        case (Inl e)
        with False show ?thesis unfolding loop_body_cases ba ii Inr by (simp add: cl)
      next
        case (Inr u)
        with False show ?thesis unfolding loop_body_cases ba ii \<open>bytearray b (allocations s') (chunk_bytes c) = Inr n\<close>
          by (simp add: sl)
      qed
    qed
  qed
qed

lemma outcome_view_Inl:
  assumes "outcome_view x = outcome_view (Inl (e, s))"
  shows "\<exists>s'. x = Inl (e, s') \<and> ramp_view s' = ramp_view s"
proof (cases x)
  case (Inl p)
  obtain e' s' where "p = (e', s')" by (cases p)
  with Inl assms show ?thesis by simp
next
  case (Inr t)
  with assms show ?thesis by simp
qed

lemma outcome_view_Inr:
  assumes "outcome_view x = outcome_view (Inr s)"
  shows "\<exists>s'. x = Inr s' \<and> ramp_view s' = ramp_view s"
proof (cases x)
  case (Inl p)
  obtain e' s' where "p = (e', s')" by (cases p)
  with Inl assms show ?thesis by simp
next
  case (Inr t)
  with assms show ?thesis by simp
qed

lemma run_iters_view:
  assumes mem: "can_allocate a = can_allocate b"
  shows "ramp_view s = ramp_view s' \<Longrightarrow>
     outcome_view (run_iters k a c s) = outcome_view (run_iters k b c s')"
proof (induction k arbitrary: s s')
  case 0
  then show ?case by simp
next
  case (Suc k)
  have lb: "outcome_view (loop_body b c s') = outcome_view (loop_body a c s)"
    using loop_body_view[OF mem Suc.prems, of c] by (rule sym)
  show ?case
  proof (cases "loop_body a c s")
    case (Inl r)
    obtain e t where r: "r = (e, t)" by (cases r)
    have "outcome_view (loop_body b c s') = outcome_view (Inl (e, t))"
      using lb Inl r by simp
    then obtain t' where t': "loop_body b c s' = Inl (e, t')" "ramp_view t' = ramp_view t"
      using outcome_view_Inl by blast
    show ?thesis using Inl r t' by simp
  next
    case (Inr t)
    have "outcome_view (loop_body b c s') = outcome_view (Inr t)"
      using lb Inr by simp
    then obtain t' where t': "loop_body b c s' = Inr t'" "ramp_view t' = ramp_view t"
      using outcome_view_Inr by blast
    have "ramp_view t = ramp_view t'" using t'(2) by (rule sym)
    then have "outcome_view (run_iters k a c t) = outcome_view (run_iters k b c t')"
      by (rule Suc.IH)
    then show ?thesis using Inr t'(1) by simp
  qed
qed

lemma ramp_loop_view_Some:
  assumes mem: "can_allocate a = can_allocate b"
    and l: "ramp_loop a c s = Some (e, t)" and v: "ramp_view s = ramp_view s'"
  shows "\<exists>t'. ramp_loop b c s' = Some (e, t') \<and> ramp_view t' = ramp_view t"
proof -
  obtain k where k: "run_iters k a c s = Inl (e, t)"
    using ramp_loop_Some_run_iters[OF l] by blast
  have "outcome_view (run_iters k a c s) = outcome_view (run_iters k b c s')"
    using mem v by (rule run_iters_view)
  then have "outcome_view (run_iters k b c s') = outcome_view (Inl (e, t))"
    unfolding k by (rule sym)
  then obtain t' where t': "run_iters k b c s' = Inl (e, t')" "ramp_view t' = ramp_view t"
    using outcome_view_Inl by blast
  from t'(1) have "ramp_loop b c s' = Some (e, t')" by (rule run_iters_Inl_ramp_loop)
  with t'(2) show ?thesis by blast
qed

lemma ramp_with_cap_view:
  assumes mem: "can_allocate a = can_allocate b"
  shows "map_option raised_view (ramp_with_cap cap a cm sl)
     = map_option raised_view (ramp_with_cap cap b cm sl)"
proof -
  let ?c = "ramp_locals_of cap cm sl"
  have vp: "ramp_view (ramp_prologue a ?c) = ramp_view (ramp_prologue b ?c)"
    by (rule view_prologue)
  have vp': "ramp_view (ramp_prologue b ?c) = ramp_view (ramp_prologue a ?c)"
    by (rule view_prologue)
  have mem': "can_allocate b = can_allocate a" using mem by (rule sym)
  show ?thesis
  proof (cases "ramp_loop a ?c (ramp_prologue a ?c)")
    case None
    have "ramp_loop b ?c (ramp_prologue b ?c) = None"
    proof (cases "ramp_loop b ?c (ramp_prologue b ?c)")
      case None
      then show ?thesis .
    next
      case (Some r)
      obtain e t where "r = (e, t)" by (cases r)
      with Some have "ramp_loop b ?c (ramp_prologue b ?c) = Some (e, t)" by simp
      from ramp_loop_view_Some[OF mem' this vp']
      obtain t' where "ramp_loop a ?c (ramp_prologue a ?c) = Some (e, t')" by blast
      with None show ?thesis by simp
    qed
    with None show ?thesis by (simp add: ramp_with_cap_def Let_def)
  next
    case (Some r)
    obtain e t where r: "r = (e, t)" by (cases r)
    with Some have la: "ramp_loop a ?c (ramp_prologue a ?c) = Some (e, t)" by simp
    from ramp_loop_view_Some[OF mem la vp]
    obtain t' where t': "ramp_loop b ?c (ramp_prologue b ?c) = Some (e, t')"
      "ramp_view t' = ramp_view t" by blast
    have tv: "ramp_view t = ramp_view t'" using t'(2) by (rule sym)
    have "ramp_view (emit (sink a) SpanEnd (if is_MemoryError e then on_memory_error a e t else t))
        = ramp_view (emit (sink b) SpanEnd (if is_MemoryError e then on_memory_error b e t' else t'))"
    proof (cases "is_MemoryError e")
      case True
      have "ramp_view (on_memory_error a e t) = ramp_view (on_memory_error b e t')"
        using tv by (rule view_on_memory_error)
      then have "ramp_view (emit (sink a) SpanEnd (on_memory_error a e t))
          = ramp_view (emit (sink b) SpanEnd (on_memory_error b e t'))"
        by (rule view_emit)
      with True show ?thesis by simp
    next
      case False
      have "ramp_view (emit (sink a) SpanEnd t) = ramp_view (emit (sink b) SpanEnd t')"
        using tv by (rule view_emit)
      with False show ?thesis by simp
    qed
    then show ?thesis
      unfolding ramp_with_cap_def Let_def la t'(1) by simp
  qed
qed

text \<open>
  C9. Two runs with the same configuration whose environments differ only in the sink
  go through the same states: after every number of passes the allocations, the
  counter, the effects and the exception raised (if any) are the same, and so is the
  outcome of the whole function.  Only the records that reach the collector differ.
\<close>

theorem ramp_independent_of_sink:
  assumes "can_allocate env_a = can_allocate env_b"
  shows "map_option raised_view (ramp_memory_and_fail env_a cm sl)
       = map_option raised_view (ramp_memory_and_fail env_b cm sl)
     \<and> outcome_view (run_iters k env_a (ramp_locals_of 400 cm sl)
                        (ramp_prologue env_a (ramp_locals_of 400 cm sl)))
       = outcome_view (run_iters k env_b (ramp_locals_of 400 cm sl)
                        (ramp_prologue env_b (ramp_locals_of 400 cm sl)))"
proof
  show "map_option raised_view (ramp_memory_and_fail env_a cm sl)
     = map_option raised_view (ramp_memory_and_fail env_b cm sl)"
    unfolding ramp_memory_and_fail_def using assms by (rule ramp_with_cap_view)
  have "ramp_view (ramp_prologue env_a (ramp_locals_of 400 cm sl))
      = ramp_view (ramp_prologue env_b (ramp_locals_of 400 cm sl))"
    by (rule view_prologue)
  with assms show "outcome_view (run_iters k env_a (ramp_locals_of 400 cm sl)
                      (ramp_prologue env_a (ramp_locals_of 400 cm sl)))
     = outcome_view (run_iters k env_b (ramp_locals_of 400 cm sl)
                      (ramp_prologue env_b (ramp_locals_of 400 cm sl)))"
    by (rule run_iters_view)
qed

lemma ramp_400_400_sink_failing:
  "ramp_with_cap 400 env_sink_failing 400 0
     = Some (MemoryError ''Reached demo cap of 400.0 MB'',
             emit (sink env_sink_failing) SpanEnd
               (on_memory_error env_sink_failing (MemoryError ''Reached demo cap of 400.0 MB'')
                 (chunk_logged env_sink_failing (ramp_locals_of 400 400 0)
                   (ramp_prologue env_sink_failing (ramp_locals_of 400 400 0)))))"
proof -
  have "run_iters (Suc 0) env_sink_failing (ramp_locals_of 400 400 0)
          (ramp_prologue env_sink_failing (ramp_locals_of 400 400 0))
     = Inl (MemoryError ''Reached demo cap of 400.0 MB'',
            chunk_logged env_sink_failing (ramp_locals_of 400 400 0)
              (ramp_prologue env_sink_failing (ramp_locals_of 400 400 0)))"
    using cap_message_400
    by (simp add: loop_body_cases locals_fields prologue_fields cap_reached_def
        bytearray_def env_sink_failing_def sys_maxsize_def)
  from ramp_with_cap_raised[OF this] show ?thesis by simp
qed

lemma exported_examples:
  "map_option (exported \<circ> snd) (ramp_memory_and_fail env_sink_failing 400 0) = Some []"
  "map_option (length \<circ> exported \<circ> snd) (ramp_memory_and_fail env_reachable 400 0) = Some 10"
  unfolding ramp_memory_and_fail_def ramp_400_400 ramp_400_400_sink_failing
  by (simp_all add: emit_def on_memory_error_def chunk_logged_def ramp_prologue_def Let_def
      init_state_def env_sink_failing_def env_reachable_def locals_fields)

theorem ramp_independent_of_sink_witness:
  "can_allocate env_reachable = can_allocate env_sink_failing
   \<and> map_option raised_view (ramp_memory_and_fail env_reachable 400 0)
     = map_option raised_view (ramp_memory_and_fail env_sink_failing 400 0)
   \<and> map_option (exported \<circ> snd) (ramp_memory_and_fail env_sink_failing 400 0) = Some []
   \<and> map_option (length \<circ> exported \<circ> snd) (ramp_memory_and_fail env_reachable 400 0) = Some 10"
proof -
  have m: "can_allocate env_reachable = can_allocate env_sink_failing"
    by (simp add: env_reachable_def env_sink_failing_def)
  from ramp_independent_of_sink[OF m, of 400 0 0] m exported_examples
  show ?thesis by blast
qed

subsection \<open>Chunk sizes that are not positive, and runs that never reach the cap\<close>

lemma ramp_events_filters:
  "length (filter is_log (ramp_events c k)) = k"
  "filter is_span_start (ramp_events c k) = []"
  by (induction k) (simp_all add: pass_events_def)

lemma prologue_filters:
  "filter is_log (trace (ramp_prologue env c))
     = [LogRecord LOG_INFO ''Starting memory ramp'' [(''chunk_mb'', chunk_mb c)] None]"
  "filter is_span_start (trace (ramp_prologue env c)) = [SpanStart ''oom-demo'']"
  by (simp_all add: prologue_trace)

lemma empty_chunks_obtainable:
  assumes "\<forall>k. can_allocate env (replicate k 0) 0"
  shows "chunks_obtainable env 0 n"
  using assms by (simp add: chunks_obtainable_def bytearray_def sys_maxsize_def)

lemma run_iters_empty_chunks:
  assumes mem: "\<forall>k. can_allocate env (replicate k 0) 0"
    and sl: "sleep_accepted sl" and cap: "0 \<le> cap"
  shows "\<exists>s. run_iters k env (ramp_locals_of cap 0 sl) (ramp_prologue env (ramp_locals_of cap 0 sl)) = Inr s
           \<and> allocations s = replicate k 0 \<and> i s = int k
           \<and> trace s = trace (ramp_prologue env (ramp_locals_of cap 0 sl))
                @ ramp_events (ramp_locals_of cap 0 sl) k"
proof -
  let ?c = "ramp_locals_of cap 0 sl"
  have cb: "chunk_bytes ?c = 0" by (simp add: locals_fields)
  have m: "chunks_obtainable env (chunk_bytes ?c) k"
    unfolding cb using mem by (rule empty_chunks_obtainable)
  have s: "sleep_accepted (sleep_seconds ?c)" using sl by (simp add: locals_fields)
  have below: "\<And>j. 1 \<le> j \<Longrightarrow> j \<le> int k \<Longrightarrow> \<not> cap_reached (max_bytes ?c) (j * chunk_bytes ?c)"
    using cap by (simp add: cb locals_fields(4) cap_reached_def)
  from run_iters_running[OF m s below] show ?thesis unfolding cb by simp
qed

lemma ramp_with_cap_empty_chunks:
  assumes mem: "\<forall>k. can_allocate env (replicate k 0) 0"
    and sl: "sleep_accepted sl" and cap: "0 \<le> cap"
  shows "ramp_with_cap cap env 0 sl = None"
proof -
  let ?c = "ramp_locals_of cap 0 sl"
  have "\<And>k. \<exists>s'. run_iters k env ?c (ramp_prologue env ?c) = Inr s'"
    using run_iters_empty_chunks[OF mem sl cap] by blast
  then have "ramp_loop env ?c (ramp_prologue env ?c) = None" by (rule ramp_loop_None)
  then show ?thesis by (simp add: ramp_with_cap_def Let_def)
qed

lemma ramp_with_cap_negative_chunk:
  assumes "cm < 0"
  shows "ramp_with_cap cap env cm sl
     = Some (if cm * 1024 * 1024 < - sys_maxsize - 1
               then OverflowError ''cannot fit 'int' into an index-sized integer''
               else ValueError ''negative count'',
             emit (sink env) SpanEnd (ramp_prologue env (ramp_locals_of cap cm sl)))"
proof -
  let ?c = "ramp_locals_of cap cm sl"
  let ?e = "if cm * 1024 * 1024 < - sys_maxsize - 1
               then OverflowError ''cannot fit 'int' into an index-sized integer''
               else ValueError ''negative count''"
  have ba: "bytearray env (allocations (ramp_prologue env ?c)) (chunk_bytes ?c) = Inl ?e"
    using assms by (simp add: bytearray_def locals_fields(1) sys_maxsize_def)
  have "run_iters (Suc 0) env ?c (ramp_prologue env ?c) = Inl (?e, ramp_prologue env ?c)"
    by (simp add: loop_body_cases ba)
  from ramp_with_cap_raised[OF this] show ?thesis by simp
qed

text \<open>
  C2, as stated, fails: with a chunk size of 0 nothing is rejected.  The run raises no
  error at all, and after its first pass one span has been started and two log records
  have been emitted.
\<close>

theorem zero_chunk_size_runs_counterexample:
  "ramp_memory_and_fail env_reachable 0 (1 / 2) = None
   \<and> filter is_span_start (trace (state_after (Suc 0) 400 env_reachable 0 (1 / 2)))
       = [SpanStart ''oom-demo'']
   \<and> filter is_log (trace (state_after (Suc 0) 400 env_reachable 0 (1 / 2)))
       = [LogRecord LOG_INFO ''Starting memory ramp'' [(''chunk_mb'', 0)] None,
          LogRecord LOG_INFO ''Allocated chunk'' [(''chunk_index'', 1), (''allocated_mb'', 0)] None]"
proof -
  have mem: "\<forall>k. can_allocate env_reachable (replicate k 0) 0"
    by (simp add: env_reachable_def)
  have sl: "sleep_accepted (1 / 2)" by (rule sleep_accepted_examples)
  have a: "ramp_memory_and_fail env_reachable 0 (1 / 2) = None"
    unfolding ramp_memory_and_fail_def using mem sl by (rule ramp_with_cap_empty_chunks) simp
  obtain s where s: "run_iters (Suc 0) env_reachable (ramp_locals_of 400 0 (1 / 2))
        (ramp_prologue env_reachable (ramp_locals_of 400 0 (1 / 2))) = Inr s"
    "trace s = trace (ramp_prologue env_reachable (ramp_locals_of 400 0 (1 / 2)))
                @ ramp_events (ramp_locals_of 400 0 (1 / 2)) (Suc 0)"
    using run_iters_empty_chunks[OF mem sl, of 400 "Suc 0"] by auto
  have st: "state_after (Suc 0) 400 env_reachable 0 (1 / 2) = s"
    unfolding state_after_def Let_def s(1) by simp
  show ?thesis
    unfolding st s(2) using a
    by (simp add: prologue_filters pass_events_def locals_fields)
qed

text \<open>
  C2, amended. A chunk size that is not positive is not rejected, and no configuration
  error is raised: the span is started and the ramp announced in the log first.  With
  a negative chunk size the first \<open>bytearray\<close> then raises \<open>ValueError\<close>
  (\<open>OverflowError\<close> for a count that is no index), with no chunk allocated, one span
  started and one log record emitted.  With a chunk size of 0, a delay that
  \<open>time.sleep\<close> takes and an allocator that serves the empty chunks, the loop never
  ends: after \<open>k\<close> passes it holds \<open>k\<close> chunks of no bytes and has emitted \<open>k + 1\<close> log
  records.
\<close>

theorem nonpositive_chunk_size_not_rejected:
  "(cm < 0 \<longrightarrow>
      (\<exists>s. ramp_memory_and_fail env cm sl
              = Some (if cm * 1024 * 1024 < - sys_maxsize - 1
                        then OverflowError ''cannot fit 'int' into an index-sized integer''
                        else ValueError ''negative count'', s)
         \<and> chunks_allocated s = 0
         \<and> filter is_span_start (trace s) = [SpanStart ''oom-demo'']
         \<and> filter is_log (trace s)
             = [LogRecord LOG_INFO ''Starting memory ramp'' [(''chunk_mb'', cm)] None]))
   \<and> (cm = 0 \<and> (\<forall>k. can_allocate env (replicate k 0) 0) \<and> sleep_accepted sl \<longrightarrow>
        ramp_memory_and_fail env cm sl = None
        \<and> (\<forall>k. chunks_allocated (state_after k 400 env cm sl) = k
              \<and> bytes_allocated (state_after k 400 env cm sl) = 0
              \<and> filter is_span_start (trace (state_after k 400 env cm sl)) = [SpanStart ''oom-demo'']
              \<and> length (filter is_log (trace (state_after k 400 env cm sl))) = Suc k))"
proof (intro conjI impI)
  assume neg: "cm < 0"
  let ?e = "if cm * 1024 * 1024 < - sys_maxsize - 1
               then OverflowError ''cannot fit 'int' into an index-sized integer''
               else ValueError ''negative count''"
  let ?s = "emit (sink env) SpanEnd (ramp_prologue env (ramp_locals_of 400 cm sl))"
  have "ramp_memory_and_fail env cm sl = Some (?e, ?s)"
    unfolding ramp_memory_and_fail_def using neg by (rule ramp_with_cap_negative_chunk)
  moreover have "chunks_allocated ?s = 0"
    by (simp add: chunks_allocated_def emit_fields prologue_fields)
  moreover have "filter is_span_start (trace ?s) = [SpanStart ''oom-demo'']"
    by (simp add: emit_fields prologue_filters)
  moreover have "filter is_log (trace ?s)
             = [LogRecord LOG_INFO ''Starting memory ramp'' [(''chunk_mb'', cm)] None]"
    by (simp add: emit_fields prologue_filters locals_fields)
  ultimately show "\<exists>s. ramp_memory_and_fail env cm sl = Some (?e, s)
         \<and> chunks_allocated s = 0
         \<and> filter is_span_start (trace s) = [SpanStart ''oom-demo'']
         \<and> filter is_log (trace s)
             = [LogRecord LOG_INFO ''Starting memory ramp'' [(''chunk_mb'', cm)] None]"
    by blast
next
  assume z: "cm = 0 \<and> (\<forall>k. can_allocate env (replicate k 0) 0) \<and> sleep_accepted sl"
  then have cm: "cm = 0" and mem: "\<forall>k. can_allocate env (replicate k 0) 0"
    and sl: "sleep_accepted sl" by simp_all
  show "ramp_memory_and_fail env cm sl = None"
    unfolding ramp_memory_and_fail_def cm using mem sl by (rule ramp_with_cap_empty_chunks) simp
  show "\<forall>k. chunks_allocated (state_after k 400 env cm sl) = k
              \<and> bytes_allocated (state_after k 400 env cm sl) = 0
              \<and> filter is_span_start (trace (state_after k 400 env cm sl)) = [SpanStart ''oom-demo'']
              \<and> length (filter is_log (trace (state_after k 400 env cm sl))) = Suc k"
  proof
    fix k
    obtain s where s: "run_iters k env (ramp_locals_of 400 0 sl)
          (ramp_prologue env (ramp_locals_of 400 0 sl)) = Inr s"
      "allocations s = replicate k 0"
      "trace s = trace (ramp_prologue env (ramp_locals_of 400 0 sl))
                @ ramp_events (ramp_locals_of 400 0 sl) k"
      using run_iters_empty_chunks[OF mem sl, of 400 k] by auto
    have st: "state_after k 400 env cm sl = s"
      unfolding state_after_def Let_def cm s(1) by simp
    show "chunks_allocated (state_after k 400 env cm sl) = k
              \<and> bytes_allocated (state_after k 400 env cm sl) = 0
              \<and> filter is_span_start (trace (state_after k 400 env cm sl)) = [SpanStart ''oom-demo'']
              \<and> length (filter is_log (trace (state_after k 400 env cm sl))) = Suc k"
      unfolding st
      by (simp add: chunks_allocated_def bytes_allocated_def s(2,3) prologue_filters
          ramp_events_filters sum_list_replicate)
  qed
qed

theorem nonpositive_chunk_size_not_rejected_witness:
  "(- 1 :: int) < 0
   \<and> (\<exists>s. ramp_memory_and_fail env_reachable (- 1) 0 = Some (ValueError ''negative count'', s)
         \<and> chunks_allocated s = 0
         \<and> filter is_span_start (trace s) = [SpanStart ''oom-demo'']
         \<and> filter is_log (trace s)
             = [LogRecord LOG_INFO ''Starting memory ramp'' [(''chunk_mb'', - 1)] None])
   \<and> (\<forall>k. can_allocate env_reachable (replicate k 0) 0)
   \<and> sleep_accepted (1 / 2)
   \<and> ramp_memory_and_fail env_reachable 0 (1 / 2) = None
   \<and> chunks_allocated (state_after 3 400 env_reachable 0 (1 / 2)) = 3
   \<and> length (filter is_log (trace (state_after 3 400 env_reachable 0 (1 / 2)))) = 4"
proof -
  have mem: "\<forall>k. can_allocate env_reachable (replicate k 0) 0"
    by (simp add: env_reachable_def)
  have sl: "sleep_accepted (1 / 2)" by (rule sleep_accepted_examples)
  have n: "(- 1 :: int) < 0" by simp
  have a: "\<exists>s. ramp_memory_and_fail env_reachable (- 1) 0 = Some (ValueError ''negative count'', s)
         \<and> chunks_allocated s = 0
         \<and> filter is_span_start (trace s) = [SpanStart ''oom-demo'']
         \<and> filter is_log (trace s)
             = [LogRecord LOG_INFO ''Starting memory ramp'' [(''chunk_mb'', - 1)] None]"
    using nonpositive_chunk_size_not_rejected[of "- 1" env_reachable 0] n
    by (simp add: sys_maxsize_def)
  have b: "ramp_memory_and_fail env_reachable 0 (1 / 2) = None
      \<and> chunks_allocated (state_after 3 400 env_reachable 0 (1 / 2)) = 3
      \<and> length (filter is_log (trace (state_after 3 400 env_reachable 0 (1 / 2)))) = 4"
    using nonpositive_chunk_size_not_rejected[of 0 env_reachable "1 / 2"] mem sl
    by simp
  show ?thesis using n a b mem sl by blast
qed

subsection \<open>The function with its cap of 400 MB\<close>

lemma quotient_400:
  "real_of_int (400 * 1024 * 1024) / real_of_int (cm * 1024 * 1024) = 400 / real_of_int cm"
  by simp

lemma chunks_needed_400:
  "chunks_needed (400 * 1024 * 1024) (cm * 1024 * 1024) = nat \<lceil>400 / real_of_int cm\<rceil>"
  unfolding chunks_needed_def quotient_400 by (rule refl)

lemma ceiling_400_pos:
  assumes "1 \<le> cm"
  shows "0 < \<lceil>400 / real_of_int cm\<rceil>"
proof -
  have "0 < 400 / real_of_int cm" using assms by simp
  then show ?thesis by (simp only: zero_less_ceiling)
qed

lemma main_never_exits_0:
  assumes "main env sh cm sl = Some (s', calls, out)"
  shows "exit_status out \<noteq> ExitCode 0"
proof -
  from assms obtain exc where out: "main_try (Inl exc) sh = (calls, out)"
    by (auto simp: main_def split: option.splits)
  show ?thesis
  proof (cases "\<forall>t \<in> set shutdown_order. sh t = None")
    case True
    have "out = snd (main_try (Inl exc) sh)" using out by simp
    then have "out = (if is_MemoryError exc then SysExit 1 else Propagated exc)"
      using True by (simp add: main_try_no_raise)
    then show ?thesis by (cases exc) simp_all
  next
    case False
    then obtain t x where "snd (main_try (Inl exc) sh) = Propagated x"
      using main_try_raise by blast
    moreover have "out = snd (main_try (Inl exc) sh)" using out by simp
    ultimately have "out = Propagated x" by simp
    then show ?thesis by (cases x) simp_all
  qed
qed

lemma ramp_400_10_negative_delay:
  "ramp_with_cap 400 env_reachable 10 (- 1)
     = Some (ValueError ''sleep length must be non-negative'',
             emit (sink env_reachable) SpanEnd
               (chunk_logged env_reachable (ramp_locals_of 400 10 (- 1))
                 (ramp_prologue env_reachable (ramp_locals_of 400 10 (- 1)))))"
proof -
  have "run_iters (Suc 0) env_reachable (ramp_locals_of 400 10 (- 1))
          (ramp_prologue env_reachable (ramp_locals_of 400 10 (- 1)))
      = Inl (ValueError ''sleep length must be non-negative'',
             chunk_logged env_reachable (ramp_locals_of 400 10 (- 1))
               (ramp_prologue env_reachable (ramp_locals_of 400 10 (- 1))))"
    by (simp add: loop_body_cases locals_fields prologue_fields cap_reached_def
        bytearray_reachable sys_maxsize_def time_sleep_def sleep_ns_def)
  from ramp_with_cap_raised[OF this] show ?thesis by simp
qed

text \<open>
  C10, as stated, fails: with chunks of 10 MB and a delay of \<open>-1\<close> the function raises
  \<open>ValueError\<close>, not \<open>MemoryError\<close>, and it does so in its first pass, not after
  \<open>ceil(400 / 10) = 40\<close> passes.
\<close>

theorem negative_delay_raises_ValueError_counterexample:
  "(1::int) \<le> 10
   \<and> \<lceil>400 / real_of_int 10\<rceil> = 40
   \<and> map_option fst (ramp_memory_and_fail env_reachable 10 (- 1))
       = Some (ValueError ''sleep length must be non-negative'')
   \<and> map_option (i \<circ> snd) (ramp_memory_and_fail env_reachable 10 (- 1)) = Some 1"
  unfolding ramp_memory_and_fail_def ramp_400_10_negative_delay
  by (simp add: emit_fields chunk_logged_fields prologue_fields)

text \<open>
  C10, amended. For every \<open>chunk_mb \<ge> 1\<close> and every delay that \<open>time.sleep\<close> takes,
  provided the allocator serves each chunk, \<open>ramp_memory_and_fail\<close> raises the
  \<open>MemoryError\<close> of its cap of 400 MB after exactly \<open>ceil(400 / chunk_mb)\<close> passes.  The
  function has no way to return: it ends by an exception or not at all, so \<open>main\<close>
  never leaves with status 0.  For \<open>chunk_mb = 0\<close>, a delay that \<open>time.sleep\<close> takes and
  an allocator that serves the empty chunks, the loop never ends.
\<close>

theorem ramp_memory_and_fail_never_returns:
  "(1 \<le> cm \<and> chunks_obtainable env (cm * 1024 * 1024) (nat \<lceil>400 / real_of_int cm\<rceil>)
      \<and> sleep_accepted sl \<longrightarrow>
      (\<exists>s. ramp_memory_and_fail env cm sl
              = Some (MemoryError ''Reached demo cap of 400.0 MB'', s)
         \<and> i s = \<lceil>400 / real_of_int cm\<rceil>
         \<and> int (chunks_allocated s) = \<lceil>400 / real_of_int cm\<rceil>))
   \<and> (cm = 0 \<and> (\<forall>k. can_allocate env (replicate k 0) 0) \<and> sleep_accepted sl \<longrightarrow>
        ramp_memory_and_fail env cm sl = None \<and> main env sh cm sl = None)
   \<and> (main env sh cm sl = Some (s', calls, out) \<longrightarrow> exit_status out \<noteq> ExitCode 0)"
proof (intro conjI impI)
  assume h: "1 \<le> cm \<and> chunks_obtainable env (cm * 1024 * 1024) (nat \<lceil>400 / real_of_int cm\<rceil>)
      \<and> sleep_accepted sl"
  then have cm: "0 < cm" and cm1: "1 \<le> cm" by simp_all
  have mem: "chunks_obtainable env (cm * 1024 * 1024)
        (chunks_needed (400 * 1024 * 1024) (cm * 1024 * 1024))"
    unfolding chunks_needed_400 using h by (elim conjE)
  have sl: "sleep_accepted sl \<or> chunks_needed (400 * 1024 * 1024) (cm * 1024 * 1024) = 1"
    using h by (elim conjE) (rule disjI1)
  have cap: "(0::int) < 400" by simp
  obtain s where s: "ramp_with_cap 400 env cm sl
        = Some (MemoryError (cap_message (400 * 1024 * 1024)), s)"
    "allocations s = replicate (chunks_needed (400 * 1024 * 1024) (cm * 1024 * 1024)) (cm * 1024 * 1024)"
    "i s = int (chunks_needed (400 * 1024 * 1024) (cm * 1024 * 1024))"
    using ramp_with_cap_capped[OF cm cap mem sl] by blast
  have "0 \<le> \<lceil>400 / real_of_int cm\<rceil>"
    using ceiling_400_pos[OF cm1] by (rule less_imp_le)
  then have n: "int (chunks_needed (400 * 1024 * 1024) (cm * 1024 * 1024)) = \<lceil>400 / real_of_int cm\<rceil>"
    unfolding chunks_needed_400 by (rule nat_0_le)
  have "ramp_memory_and_fail env cm sl = Some (MemoryError ''Reached demo cap of 400.0 MB'', s)"
    unfolding ramp_memory_and_fail_def s(1) cap_message_400 by (rule refl)
  moreover have "i s = \<lceil>400 / real_of_int cm\<rceil>" using s(3) n by simp
  moreover have "int (chunks_allocated s) = \<lceil>400 / real_of_int cm\<rceil>"
    using s(2) n by (simp add: chunks_allocated_def)
  ultimately show "\<exists>s. ramp_memory_and_fail env cm sl
              = Some (MemoryError ''Reached demo cap of 400.0 MB'', s)
         \<and> i s = \<lceil>400 / real_of_int cm\<rceil>
         \<and> int (chunks_allocated s) = \<lceil>400 / real_of_int cm\<rceil>"
    by blast
next
  assume z: "cm = 0 \<and> (\<forall>k. can_allocate env (replicate k 0) 0) \<and> sleep_accepted sl"
  then have cm: "cm = 0" and mem: "\<forall>k. can_allocate env (replicate k 0) 0"
    and sl: "sleep_accepted sl" by simp_all
  show none: "ramp_memory_and_fail env cm sl = None"
    unfolding ramp_memory_and_fail_def cm using mem sl by (rule ramp_with_cap_empty_chunks) simp
  then show "main env sh cm sl = None" by (simp add: main_def)
next
  assume "main env sh cm sl = Some (s', calls, out)"
  then show "exit_status out \<noteq> ExitCode 0" by (rule main_never_exits_0)
qed

theorem ramp_memory_and_fail_never_returns_witness:
  "(1::int) \<le> 10
   \<and> chunks_obtainable env_reachable (10 * 1024 * 1024) 40
   \<and> sleep_accepted (1 / 2)
   \<and> (\<exists>s. ramp_memory_and_fail env_reachable 10 (1 / 2)
             = Some (MemoryError ''Reached demo cap of 400.0 MB'', s) \<and> i s = 40)
   \<and> (\<forall>k. can_allocate env_reachable (replicate k 0) 0)
   \<and> ramp_memory_and_fail env_reachable 0 (1 / 2) = None
   \<and> (\<exists>s' calls out. main env_reachable all_shutdowns_return 400 0 = Some (s', calls, out)
         \<and> exit_status out \<noteq> ExitCode 0)"
proof -
  have c: "nat \<lceil>400 / real_of_int 10\<rceil> = 40" by simp
  have m: "chunks_obtainable env_reachable (10 * 1024 * 1024) 40"
    by (rule chunks_obtainable_reachable) (simp_all add: sys_maxsize_def)
  have sl: "sleep_accepted (1 / 2)" by (rule sleep_accepted_examples)
  have mem: "\<forall>k. can_allocate env_reachable (replicate k 0) 0"
    by (simp add: env_reachable_def)
  have a: "\<exists>s. ramp_memory_and_fail env_reachable 10 (1 / 2)
             = Some (MemoryError ''Reached demo cap of 400.0 MB'', s) \<and> i s = 40"
    using ramp_memory_and_fail_never_returns[of 10 env_reachable "1 / 2" all_shutdowns_return
        init_state "[]" Returned]
      m sl by (auto simp: c)
  have b: "ramp_memory_and_fail env_reachable 0 (1 / 2) = None"
    using ramp_memory_and_fail_never_returns[of 0 env_reachable "1 / 2" all_shutdowns_return
        init_state "[]" Returned]
      mem sl by auto
  obtain s' calls out where mn: "main env_reachable all_shutdowns_return 400 0 = Some (s', calls, out)"
    unfolding main_def ramp_memory_and_fail_def ramp_400_400
    by (cases "main_try (Inl (MemoryError ''Reached demo cap of 400.0 MB'')) all_shutdowns_return") simp
  have "exit_status out \<noteq> ExitCode 0"
    using ramp_memory_and_fail_never_returns[of 400 env_reachable 0 all_shutdowns_return s' calls out]
      mn by simp
  with mn have d: "\<exists>s' calls out. main env_reachable all_shutdowns_return 400 0 = Some (s', calls, out)
         \<and> exit_status out \<noteq> ExitCode 0" by blast
  show ?thesis using m sl mem a b d by simp
qed

end
